theory Spec2Isabelle
  imports Main "HOL-Library.Multiset"
begin

section \<open>Values\<close>

text \<open>
  Every \<open>DecimalField\<close> of the models has \<open>decimal_places=2\<close>. A decimal is represented
  by its number of hundredths, an unbounded integer: Python's \<open>Decimal\<close> adds, subtracts and
  compares such values exactly. Users, employees and all other rows are referred to by their
  primary key, a natural number.
\<close>

type_synonym decimal = int

datatype date = Date (year: nat) (month: nat) (day: nat)

datatype datetime = DateTime (date_of: date) (time_of_day: nat)

section \<open>Models (workforce/core\_models.py, workforce/models.py)\<close>

text \<open>
  \<open>TimestampedModel\<close> and \<open>AuditedModel\<close> are the abstract bases of every model below;
  \<open>pk\<close> is Django's implicit \<open>id\<close> column. Field names carry a short prefix of their
  model (\<open>lb\<close>, \<open>la\<close>, \<open>pp\<close>, \<open>pc\<close>, \<open>pcd\<close>), because several models share field
  names (\<open>status\<close>, \<open>employee\<close>, \<open>approved_by\<close>, ...).
\<close>

record audited_model =
  pk :: nat
  created_at :: datetime
  updated_at :: datetime
  created_by :: "nat option"
  updated_by :: "nat option"

datatype employment_status =
  Active | Probation | Suspended | Terminated | Resigned | Retired

record department = audited_model +
  dept_code :: string
  dept_name :: string

record employee = audited_model +
  employee_no :: string
  first_name :: string
  middle_name :: string
  last_name :: string
  employment_status :: employment_status
  emp_department :: "nat option"

record leave_type = audited_model +
  lt_code :: string
  lt_name :: string
  lt_accrual_rate :: decimal
  lt_is_active :: bool

record employee_leave_balance = audited_model +
  lb_employee :: nat
  lb_leave_type :: nat
  lb_year :: nat
  lb_opening_balance :: decimal
  lb_accrued_days :: decimal
  lb_carried_forward_days :: decimal
  lb_adjustment_days :: decimal
  lb_taken_days :: decimal
  lb_pending_days :: decimal
  lb_encashed_days :: decimal
  lb_forfeited_days :: decimal
  lb_closing_balance :: decimal
  lb_last_accrual_date :: "date option"
  lb_next_accrual_date :: "date option"

datatype leave_status =
  Draft | Submitted | Pending_approval | Approved | Rejected
  | Cancelled | On_leave | Completed

record leave_application = audited_model +
  la_employee :: nat
  la_leave_type :: nat
  la_application_date :: date
  la_start_date :: date
  la_end_date :: date
  la_total_days :: decimal
  la_working_days :: decimal
  la_reason :: string
  la_emergency_contact_during_leave :: string
  la_emergency_phone :: string
  la_return_date :: date
  la_acting_employee :: "nat option"
  la_supporting_document_path :: string
  la_medical_certificate_path :: string
  la_status :: leave_status
  la_current_approver :: "nat option"
  la_submitted_date :: "datetime option"
  la_approved_date :: "datetime option"
  la_rejected_date :: "datetime option"
  la_rejection_reason :: string
  la_cancelled_date :: "datetime option"
  la_cancellation_reason :: string
  la_actual_return_date :: "date option"
  la_remarks :: string

datatype period_type = Monthly | Bi_weekly | Weekly

datatype period_status =
  Open | Processing | Calculated | Period_approved | Paid | Closed

record payroll_period = audited_model +
  pp_period_name :: string
  pp_period_type :: period_type
  pp_start_date :: date
  pp_end_date :: date
  pp_payment_date :: date
  pp_status :: period_status
  pp_total_gross_pay :: decimal
  pp_total_deductions :: decimal
  pp_total_net_pay :: decimal
  pp_employee_count :: nat
  pp_processing_started_at :: "datetime option"
  pp_processing_completed_at :: "datetime option"
  pp_approved_by :: "nat option"
  pp_approved_date :: "date option"
  pp_locked :: bool
  pp_notes :: string

datatype payment_method = Bank_transfer | Check | Cash | Mobile_money

datatype payment_status = Payment_pending | Payment_paid | Payment_failed | Payment_cancelled

record payroll_calculation = audited_model +
  pc_employee :: nat
  pc_payroll_period :: nat
  pc_basic_salary :: decimal
  pc_total_earnings :: decimal
  pc_total_allowances :: decimal
  pc_total_overtime :: decimal
  pc_total_bonuses :: decimal
  pc_gross_pay :: decimal
  pc_total_statutory_deductions :: decimal
  pc_total_voluntary_deductions :: decimal
  pc_total_loan_deductions :: decimal
  pc_total_deductions :: decimal
  pc_taxable_income :: decimal
  pc_tax_amount :: decimal
  pc_pension_employee :: decimal
  pc_pension_employer :: decimal
  pc_net_pay :: decimal
  pc_employer_cost :: decimal
  pc_payment_method :: payment_method
  pc_bank_account_number :: string
  pc_payment_status :: payment_status
  pc_payment_date :: "date option"
  pc_payment_reference :: string
  pc_notes :: string
  pc_calculated_at :: datetime
  pc_calculated_by :: "nat option"
  pc_approved_at :: "datetime option"
  pc_approved_by :: "nat option"

datatype item_type = Earning | Deduction

record payroll_calculation_detail = audited_model +
  pcd_payroll_calculation :: nat
  pcd_item_type :: item_type
  pcd_earning_type :: "nat option"
  pcd_deduction_type :: "nat option"
  pcd_description :: string
  pcd_amount :: decimal
  pcd_is_taxable :: bool
  pcd_is_pensionable :: bool
  pcd_units :: "decimal option"
  pcd_rate :: "decimal option"
  pcd_gl_account_code :: string

section \<open>The database\<close>

text \<open>
  One table per model, each a list of rows. The handlers below run one after the other on
  this state: the code takes no lock and opens no transaction around them.
\<close>

record db =
  departments :: "department list"
  employees :: "employee list"
  leave_types :: "leave_type list"
  leave_balances :: "employee_leave_balance list"
  leave_applications :: "leave_application list"
  payroll_periods :: "payroll_period list"
  payroll_calculations :: "payroll_calculation list"
  payroll_calculation_details :: "payroll_calculation_detail list"

subsection \<open>The ORM calls the handlers make\<close>

text \<open>
  \<open>Model.objects.filter(...).first()\<close> is \<^const>\<open>find\<close> on the table. \<open>instance.save()\<close>
  first sets the \<open>auto_now\<close> column \<open>updated_at\<close> of \<open>TimestampedModel\<close> to the current
  time, then writes the instance over the row with its primary key, or adds it when the
  table has no such row. The clock readings of one request are one instant, \<open>now\<close>.
\<close>

definition pre_save :: "datetime \<Rightarrow> 'a audited_model_scheme \<Rightarrow> 'a audited_model_scheme" where
  "pre_save now r = r\<lparr>updated_at := now\<rparr>"

fun write_row :: "'a audited_model_scheme \<Rightarrow> 'a audited_model_scheme list
    \<Rightarrow> 'a audited_model_scheme list" where
  "write_row r [] = [r]"
| "write_row r (x # xs) = (if pk x = pk r then r # xs else x # write_row r xs)"

definition save :: "datetime \<Rightarrow> 'a audited_model_scheme \<Rightarrow> 'a audited_model_scheme list
    \<Rightarrow> 'a audited_model_scheme list" where
  "save now r rows = write_row (pre_save now r) rows"

definition by_pk :: "nat \<Rightarrow> 'a audited_model_scheme list \<Rightarrow> 'a audited_model_scheme option" where
  "by_pk i rows = find (\<lambda>r. pk r = i) rows"

text \<open>The row of \<open>EmployeeLeaveBalance\<close> for (employee, leave type, year), if any.\<close>

definition balance_row :: "nat \<Rightarrow> nat \<Rightarrow> nat \<Rightarrow> employee_leave_balance list
    \<Rightarrow> employee_leave_balance option" where
  "balance_row e t y rows =
     find (\<lambda>b. lb_employee b = e \<and> lb_leave_type b = t \<and> lb_year b = y) rows"

definition balance_of :: "leave_application \<Rightarrow> db \<Rightarrow> employee_leave_balance option" where
  "balance_of app s =
     balance_row (la_employee app) (la_leave_type app) (year (la_start_date app))
       (leave_balances s)"

section \<open>REST actions (workforce/viewsets.py)\<close>

text \<open>
  An action returns its response and the database it leaves. A response is either the
  payload of \<open>Response(...)\<close> with status 200 or an error. \<open>self.get_object()\<close> raises
  \<open>Http404\<close> when no row has the primary key of the URL.
\<close>

datatype api_error =
    Not_found
  | Bad_request string
  | Insufficient_leave_balance decimal
  | Multiple_objects_returned
  | Does_not_exist
  | Attribute_error
  | Invalid_operation

definition get_object :: "nat \<Rightarrow> 'a audited_model_scheme list
    \<Rightarrow> api_error + 'a audited_model_scheme" where
  "get_object i rows = (case by_pk i rows of None \<Rightarrow> Inl Not_found | Some r \<Rightarrow> Inr r)"

text \<open>
  The day counts of a balance are \<open>DecimalField(max_digits=6, decimal_places=2)\<close>. Writing
  the row formats each of them with at most six digits: a count of 10000.00 or more, or of
  -10000.00 or less, makes \<open>balance.save()\<close> raise \<open>decimal.InvalidOperation\<close>, and nothing
  is written. \<open>save_balance\<close> is the save with this check. The two handlers that
  recompute the closing balance, \<open>accrue_monthly\<close> and \<open>leave_application_approve\<close>, are
  modelled with it; \<open>submit\<close> and \<open>reject\<close>, which only move \<open>working_days\<close> into or out
  of \<open>pending_days\<close>, are modelled with the plain save.
\<close>

definition fits :: "nat \<Rightarrow> decimal \<Rightarrow> bool" where
  "fits max_digits v = (abs v < 10 ^ max_digits)"

definition balance_fits :: "employee_leave_balance \<Rightarrow> bool" where
  "balance_fits b =
     (fits 6 (lb_opening_balance b) \<and> fits 6 (lb_accrued_days b)
      \<and> fits 6 (lb_carried_forward_days b) \<and> fits 6 (lb_adjustment_days b)
      \<and> fits 6 (lb_taken_days b) \<and> fits 6 (lb_pending_days b)
      \<and> fits 6 (lb_encashed_days b) \<and> fits 6 (lb_forfeited_days b)
      \<and> fits 6 (lb_closing_balance b))"

definition save_balance :: "datetime \<Rightarrow> employee_leave_balance \<Rightarrow> employee_leave_balance list
    \<Rightarrow> api_error + employee_leave_balance list" where
  "save_balance now b rows =
     (if balance_fits b then Inr (save now b rows) else Inl Invalid_operation)"

subsection \<open>LeaveApplicationViewSet\<close>

text \<open>
  \<open>submit\<close>, after the status check: the balance check, then the two saves. The error
  of the balance check carries \<open>available\<close>, which the source formats into its message.
\<close>

definition submit_checked :: "datetime \<Rightarrow> leave_application \<Rightarrow> db
    \<Rightarrow> (api_error + leave_application) \<times> db" where
  "submit_checked now leave_app s =
     (let balance = balance_of leave_app s;
          leave_app' = pre_save now
            (leave_app\<lparr>la_status := Submitted, la_submitted_date := Some now\<rparr>);
          s1 = s\<lparr>leave_applications := write_row leave_app' (leave_applications s)\<rparr>
      in case balance of
           None \<Rightarrow> (Inr leave_app', s1)
         | Some b \<Rightarrow>
             (Inr leave_app',
              s1\<lparr>leave_balances :=
                   save now (b\<lparr>lb_pending_days := lb_pending_days b + la_working_days leave_app'\<rparr>)
                     (leave_balances s1)\<rparr>))"

definition LeaveApplicationViewSet_submit :: "datetime \<Rightarrow> nat \<Rightarrow> db
    \<Rightarrow> (api_error + leave_application) \<times> db" where
  "LeaveApplicationViewSet_submit now i s =
     (case get_object i (leave_applications s) of
        Inl e \<Rightarrow> (Inl e, s)
      | Inr leave_app \<Rightarrow>
          if la_status leave_app \<noteq> Draft
          then (Inl (Bad_request ''Can only submit draft applications''), s)
          else (case balance_of leave_app s of
                  None \<Rightarrow> submit_checked now leave_app s
                | Some balance \<Rightarrow>
                    (let available = lb_closing_balance balance - lb_pending_days balance
                     in if available < la_working_days leave_app
                        then (Inl (Insufficient_leave_balance available), s)
                        else submit_checked now leave_app s)))"

definition LeaveApplicationViewSet_approve :: "datetime \<Rightarrow> nat \<Rightarrow> db
    \<Rightarrow> (api_error + leave_application) \<times> db" where
  "LeaveApplicationViewSet_approve now i s =
     (case get_object i (leave_applications s) of
        Inl e \<Rightarrow> (Inl e, s)
      | Inr leave_app \<Rightarrow>
          if la_status leave_app \<notin> {Submitted, Pending_approval}
          then (Inl (Bad_request ''Invalid status for approval''), s)
          else
            (let leave_app' = pre_save now
                   (leave_app\<lparr>la_status := Approved, la_approved_date := Some now\<rparr>)
             in (Inr leave_app',
                 s\<lparr>leave_applications := write_row leave_app' (leave_applications s)\<rparr>)))"

text \<open>\<open>reason\<close> is \<open>request.data.get('reason', '')\<close>: the posted value, or the empty string.\<close>

definition LeaveApplicationViewSet_reject :: "datetime \<Rightarrow> string option \<Rightarrow> nat \<Rightarrow> db
    \<Rightarrow> (api_error + leave_application) \<times> db" where
  "LeaveApplicationViewSet_reject now reason i s =
     (case get_object i (leave_applications s) of
        Inl e \<Rightarrow> (Inl e, s)
      | Inr leave_app \<Rightarrow>
          if la_status leave_app \<notin> {Submitted, Pending_approval}
          then (Inl (Bad_request ''Invalid status for rejection''), s)
          else
            (let leave_app' = pre_save now
                   (leave_app\<lparr>la_status := Rejected, la_rejected_date := Some now,
                      la_rejection_reason := (case reason of None \<Rightarrow> [] | Some r \<Rightarrow> r)\<rparr>);
                 s1 = s\<lparr>leave_applications := write_row leave_app' (leave_applications s)\<rparr>
             in case balance_of leave_app' s1 of
                  None \<Rightarrow> (Inr leave_app', s1)
                | Some balance \<Rightarrow>
                    (Inr leave_app',
                     s1\<lparr>leave_balances :=
                          save now (balance\<lparr>lb_pending_days :=
                                      lb_pending_days balance - la_working_days leave_app'\<rparr>)
                            (leave_balances s1)\<rparr>)))"

subsection \<open>EmployeeLeaveBalanceViewSet\<close>

text \<open>
  \<open>get_or_create(employee, leave_type, year)\<close>: the row with these three values;
  without one, a new row with every default of the model (all day counts 0) under a fresh
  primary key. With several rows, \<open>get\<close> raises \<open>MultipleObjectsReturned\<close>.
\<close>

definition next_pk :: "'a audited_model_scheme list \<Rightarrow> nat" where
  "next_pk rows = Suc (fold max (map pk rows) 0)"

definition new_balance :: "datetime \<Rightarrow> nat \<Rightarrow> nat \<Rightarrow> nat \<Rightarrow> nat \<Rightarrow> employee_leave_balance" where
  "new_balance now i e t y =
     \<lparr>pk = i, created_at = now, updated_at = now, created_by = None, updated_by = None,
      lb_employee = e, lb_leave_type = t, lb_year = y,
      lb_opening_balance = 0, lb_accrued_days = 0, lb_carried_forward_days = 0,
      lb_adjustment_days = 0, lb_taken_days = 0, lb_pending_days = 0,
      lb_encashed_days = 0, lb_forfeited_days = 0, lb_closing_balance = 0,
      lb_last_accrual_date = None, lb_next_accrual_date = None\<rparr>"

definition get_or_create :: "datetime \<Rightarrow> nat \<Rightarrow> nat \<Rightarrow> nat \<Rightarrow> employee_leave_balance list
    \<Rightarrow> api_error + employee_leave_balance \<times> employee_leave_balance list" where
  "get_or_create now e t y rows =
     (case filter (\<lambda>b. lb_employee b = e \<and> lb_leave_type b = t \<and> lb_year b = y) rows of
        [] \<Rightarrow> (let b = new_balance now (next_pk rows) e t y in Inr (b, rows @ [b]))
      | [b] \<Rightarrow> Inr (b, rows)
      | _ \<Rightarrow> Inl Multiple_objects_returned)"

text \<open>
  The body of the two nested loops, for one employee and one leave type. When the save
  raises, the table is as \<open>get_or_create\<close> left it.
\<close>

definition accrue :: "datetime \<Rightarrow> employee \<Rightarrow> leave_type \<Rightarrow> employee_leave_balance list
    \<Rightarrow> api_error \<times> employee_leave_balance list + employee_leave_balance list" where
  "accrue now employee leave_type rows =
     (case get_or_create now (pk employee) (pk leave_type) (year (date_of now)) rows of
        Inl e \<Rightarrow> Inl (e, rows)
      | Inr (balance, rows1) \<Rightarrow>
          (let b1 = balance\<lparr>lb_accrued_days := lb_accrued_days balance + lt_accrual_rate leave_type\<rparr>;
               b2 = b1\<lparr>lb_closing_balance :=
                       lb_opening_balance b1 + lb_accrued_days b1 + lb_carried_forward_days b1
                       - lb_taken_days b1\<rparr>;
               b3 = b2\<lparr>lb_last_accrual_date := Some (date_of now)\<rparr>
           in case save_balance now b3 rows1 of
                Inl e \<Rightarrow> Inl (e, rows1)
              | Inr rows' \<Rightarrow> Inr rows'))"

text \<open>
  The loops, as one pass over the pairs (employee, leave type), employees and leave types
  each in table order. An exception ends the request; what was written before it stays
  written, since the action opens no transaction.
\<close>

fun accrue_loop :: "datetime \<Rightarrow> (employee \<times> leave_type) list \<Rightarrow> nat
    \<Rightarrow> employee_leave_balance list \<Rightarrow> (api_error + nat) \<times> employee_leave_balance list" where
  "accrue_loop now [] accrued_count rows = (Inr accrued_count, rows)"
| "accrue_loop now ((employee, leave_type) # ps) accrued_count rows =
     (case accrue now employee leave_type rows of
        Inl (e, rows1) \<Rightarrow> (Inl e, rows1)
      | Inr rows' \<Rightarrow> accrue_loop now ps (accrued_count + 1) rows')"

text \<open>The response carries \<open>accrued_count\<close>, \<open>employees.count()\<close> and \<open>leave_types.count()\<close>.\<close>

definition accrue_monthly :: "datetime \<Rightarrow> db \<Rightarrow> (api_error + nat \<times> nat \<times> nat) \<times> db" where
  "accrue_monthly now s =
     (let es = filter (\<lambda>e. employment_status e = Active) (employees s);
          ts = filter lt_is_active (leave_types s)
      in case accrue_loop now (List.product es ts) 0 (leave_balances s) of
           (Inl e, rows) \<Rightarrow> (Inl e, s\<lparr>leave_balances := rows\<rparr>)
         | (Inr n, rows) \<Rightarrow> (Inr (n, length es, length ts), s\<lparr>leave_balances := rows\<rparr>))"

subsection \<open>PayrollPeriodViewSet\<close>

text \<open>
  \<open>process\<close> answers with its message and the name of the period; nothing follows the
  save but a TODO comment.
\<close>

definition PayrollPeriodViewSet_process :: "datetime \<Rightarrow> nat \<Rightarrow> db
    \<Rightarrow> (api_error + string \<times> string) \<times> db" where
  "PayrollPeriodViewSet_process now i s =
     (case get_object i (payroll_periods s) of
        Inl e \<Rightarrow> (Inl e, s)
      | Inr period \<Rightarrow>
          if pp_status period \<notin> {Open, Processing}
          then (Inl (Bad_request ''Period is not open for processing''), s)
          else
            (let period' = pre_save now
                   (period\<lparr>pp_status := Processing, pp_processing_started_at := Some now\<rparr>)
             in (Inr (''Payroll processing started'', pp_period_name period'),
                 s\<lparr>payroll_periods := write_row period' (payroll_periods s)\<rparr>)))"

text \<open>\<open>user\<close> is \<open>request.user\<close>.\<close>

definition PayrollPeriodViewSet_approve :: "datetime \<Rightarrow> nat \<Rightarrow> nat \<Rightarrow> db
    \<Rightarrow> (api_error + payroll_period) \<times> db" where
  "PayrollPeriodViewSet_approve now user i s =
     (case get_object i (payroll_periods s) of
        Inl e \<Rightarrow> (Inl e, s)
      | Inr period \<Rightarrow>
          if pp_status period \<noteq> Calculated
          then (Inl (Bad_request ''Period must be calculated before approval''), s)
          else
            (let period' = pre_save now
                   (period\<lparr>pp_status := Period_approved, pp_approved_by := Some user,
                      pp_approved_date := Some (date_of now)\<rparr>)
             in (Inr period',
                 s\<lparr>payroll_periods := write_row period' (payroll_periods s)\<rparr>)))"

text \<open>
  \<open>PayrollPeriodViewSet\<close> is a \<open>ModelViewSet\<close>: its \<open>DELETE\<close> route deletes the period, and
  with it the calculations of the period and their detail lines (\<open>on_delete=CASCADE\<close>).
  The response is 204 without content.
\<close>

definition PayrollPeriodViewSet_destroy :: "nat \<Rightarrow> db \<Rightarrow> (api_error + unit) \<times> db" where
  "PayrollPeriodViewSet_destroy i s =
     (case get_object i (payroll_periods s) of
        Inl e \<Rightarrow> (Inl e, s)
      | Inr period \<Rightarrow>
          (let gone = filter (\<lambda>c. pc_payroll_period c = i) (payroll_calculations s)
           in (Inr (),
               s\<lparr>payroll_periods := filter (\<lambda>r. pk r \<noteq> i) (payroll_periods s),
                 payroll_calculations :=
                   filter (\<lambda>c. pc_payroll_period c \<noteq> i) (payroll_calculations s),
                 payroll_calculation_details :=
                   filter (\<lambda>d. pcd_payroll_calculation d \<notin> set (map pk gone))
                     (payroll_calculation_details s)\<rparr>)))"

subsection \<open>EmployeeViewSet\<close>

text \<open>
  The \<open>DELETE\<close> route of \<open>EmployeeViewSet\<close>, also a \<open>ModelViewSet\<close>. Deleting an employee
  deletes the rows that belong to the employee: balances, applications, calculations and
  their detail lines (\<open>on_delete=CASCADE\<close>); an application of someone else on which the
  employee is \<open>acting_employee\<close> loses that reference (\<open>on_delete=SET_NULL\<close>).
\<close>

definition EmployeeViewSet_destroy :: "nat \<Rightarrow> db \<Rightarrow> (api_error + unit) \<times> db" where
  "EmployeeViewSet_destroy i s =
     (case get_object i (employees s) of
        Inl e \<Rightarrow> (Inl e, s)
      | Inr employee \<Rightarrow>
          (let gone = filter (\<lambda>c. pc_employee c = i) (payroll_calculations s)
           in (Inr (),
               s\<lparr>employees := filter (\<lambda>r. pk r \<noteq> i) (employees s),
                 leave_balances := filter (\<lambda>b. lb_employee b \<noteq> i) (leave_balances s),
                 leave_applications :=
                   map (\<lambda>a. if la_acting_employee a = Some i
                            then a\<lparr>la_acting_employee := None\<rparr> else a)
                     (filter (\<lambda>a. la_employee a \<noteq> i) (leave_applications s)),
                 payroll_calculations :=
                   filter (\<lambda>c. pc_employee c \<noteq> i) (payroll_calculations s),
                 payroll_calculation_details :=
                   filter (\<lambda>d. pcd_payroll_calculation d \<notin> set (map pk gone))
                     (payroll_calculation_details s)\<rparr>)))"

subsection \<open>Detail routes in general\<close>

text \<open>
  Every detail route of the nine viewsets (\<open>retrieve\<close>, \<open>update\<close>, \<open>partial_update\<close> and
  \<open>destroy\<close> where the viewset has them, and every \<open>@action(detail=True)\<close>) begins with
  \<open>self.get_object()\<close> on the queryset of the viewset and goes on with the row found.
  \<open>queryset\<close> reads that table, \<open>key\<close> the primary key of a row, and \<open>action\<close> is what the
  route does with the row.
\<close>

definition detail_route :: "('s \<Rightarrow> 'r list) \<Rightarrow> ('r \<Rightarrow> nat) \<Rightarrow> ('r \<Rightarrow> 's \<Rightarrow> (api_error + 'd) \<times> 's)
    \<Rightarrow> nat \<Rightarrow> 's \<Rightarrow> (api_error + 'd) \<times> 's" where
  "detail_route queryset key action i s =
     (case find (\<lambda>r. key r = i) (queryset s) of
        None \<Rightarrow> (Inl Not_found, s)
      | Some obj \<Rightarrow> action obj s)"

subsection \<open>PayrollCalculationViewSet\<close>

text \<open>
  Python's \<open>str.strip()\<close> on the ASCII whitespace characters, as \<open>get_full_name\<close> of
  \<open>Employee\<close> uses it.
\<close>

definition is_space :: "char \<Rightarrow> bool" where
  "is_space c = (c \<in> set [CHR '' '', CHR 0x09, CHR 0x0A, CHR 0x0B, CHR 0x0C, CHR 0x0D])"

definition strip :: "string \<Rightarrow> string" where
  "strip x = rev (dropWhile is_space (rev (dropWhile is_space x)))"

definition get_full_name :: "employee \<Rightarrow> string" where
  "get_full_name e = strip (first_name e @ '' '' @ middle_name e @ '' '' @ last_name e)"

text \<open>
  The payload of \<open>breakdown\<close>. The source converts every amount with \<open>float\<close>:
  \<open>Float_of d\<close> stands for the float that \<open>float(d)\<close> returns, and no arithmetic on such
  values is modelled. The lines are a multiset: their order in the response is the
  \<open>ORDER BY\<close> of \<open>Meta.ordering\<close>, which is left to the database. Following a foreign key
  whose row is missing raises \<open>DoesNotExist\<close>; \<open>employee.department\<close> may be null, and
  \<open>.name\<close> on it raises \<open>AttributeError\<close>.
\<close>

datatype pyfloat = Float_of decimal

record breakdown_data =
  bd_employee_no :: string
  bd_name :: string
  bd_department :: string
  bd_period :: string
  bd_earnings :: "(string \<times> pyfloat) multiset"
  bd_deductions :: "(string \<times> pyfloat) multiset"
  bd_gross_pay :: pyfloat
  bd_total_deductions :: pyfloat
  bd_net_pay :: pyfloat

definition details_of :: "payroll_calculation \<Rightarrow> db \<Rightarrow> payroll_calculation_detail list" where
  "details_of calculation s =
     filter (\<lambda>d. pcd_payroll_calculation d = pk calculation) (payroll_calculation_details s)"

definition PayrollCalculationViewSet_breakdown :: "nat \<Rightarrow> db \<Rightarrow> (api_error + breakdown_data) \<times> db" where
  "PayrollCalculationViewSet_breakdown i s =
     (case get_object i (payroll_calculations s) of
        Inl e \<Rightarrow> (Inl e, s)
      | Inr calculation \<Rightarrow>
          (let details = details_of calculation s;
               earnings = filter (\<lambda>d. pcd_item_type d = Earning) details;
               deductions = filter (\<lambda>d. pcd_item_type d = Deduction) details
           in case (by_pk (pc_employee calculation) (employees s),
                    by_pk (pc_payroll_period calculation) (payroll_periods s)) of
                (Some e, Some p) \<Rightarrow>
                  (case emp_department e of
                     None \<Rightarrow> (Inl Attribute_error, s)
                   | Some d \<Rightarrow>
                       (case by_pk d (departments s) of
                          None \<Rightarrow> (Inl Does_not_exist, s)
                        | Some dept \<Rightarrow>
                            (Inr \<lparr>bd_employee_no = employee_no e,
                                  bd_name = get_full_name e,
                                  bd_department = dept_name dept,
                                  bd_period = pp_period_name p,
                                  bd_earnings =
                                    mset (map (\<lambda>d. (pcd_description d, Float_of (pcd_amount d)))
                                            earnings),
                                  bd_deductions =
                                    mset (map (\<lambda>d. (pcd_description d, Float_of (pcd_amount d)))
                                            deductions),
                                  bd_gross_pay = Float_of (pc_gross_pay calculation),
                                  bd_total_deductions = Float_of (pc_total_deductions calculation),
                                  bd_net_pay = Float_of (pc_net_pay calculation)\<rparr>, s)))
              | _ \<Rightarrow> (Inl Does_not_exist, s)))"

section \<open>HTML views (workforce/views.py)\<close>

text \<open>
  A view returns its response and the database it leaves. Of a request, the views read
  whether its user is authenticated, its method and the posted \<open>reason\<close>. A redirect
  records the name the view passes to \<open>redirect\<close> and the message it queued before; turning
  the name into a URL is the business of the URL configuration (\<open>workforce/urls.py\<close> sets
  \<open>app_name = 'hr_payroll'\<close>) and is not modelled. A rendered page is the name of its
  template, a JSON response its status and message.
\<close>

datatype http_method = GET | POST

record request =
  req_user :: "nat option"
  req_method :: http_method
  req_post_reason :: "string option"

datatype flash = Message_error string | Message_success string

datatype http_response =
    Redirect_to_login
  | Page_not_found
  | Redirect string flash
  | Redirect_plain string
  | Render string
  | Json_response nat string
  | Integrity_error
  | Decimal_error

text \<open>
  \<open>@login_required\<close>, and \<open>LoginRequiredMixin\<close> on a class-based view: an anonymous request
  is sent to the login page; the view does not run.
\<close>

definition login_required :: "(request \<Rightarrow> 's \<Rightarrow> http_response \<times> 's) \<Rightarrow> request \<Rightarrow> 's
    \<Rightarrow> http_response \<times> 's" where
  "login_required view request s =
     (if req_user request = None then (Redirect_to_login, s) else view request s)"

text \<open>
  In \<open>leave_application_approve\<close> the application is saved before the balance: when the
  save of the balance raises \<open>decimal.InvalidOperation\<close>, the approval is already stored.
\<close>

definition leave_application_approve :: "datetime \<Rightarrow> nat \<Rightarrow> request \<Rightarrow> db \<Rightarrow> http_response \<times> db" where
  "leave_application_approve now application_id =
     login_required (\<lambda>request s.
       case by_pk application_id (leave_applications s) of
         None \<Rightarrow> (Page_not_found, s)
       | Some application \<Rightarrow>
           if la_status application \<notin> {Submitted, Pending_approval}
           then (Redirect ''leave_application_list''
                   (Message_error ''This application cannot be approved.''), s)
           else
             (let application' = pre_save now
                    (application\<lparr>la_status := Approved, la_approved_date := Some now\<rparr>);
                  s1 = s\<lparr>leave_applications := write_row application' (leave_applications s)\<rparr>;
                  done = Redirect ''leave_application_list''
                    (Message_success ''Leave application approved!'')
              in case balance_of application' s1 of
                   None \<Rightarrow> (done, s1)
                 | Some balance \<Rightarrow>
                     (let b1 = balance\<lparr>lb_taken_days :=
                                 lb_taken_days balance + la_working_days application'\<rparr>;
                          b2 = b1\<lparr>lb_pending_days :=
                                 lb_pending_days b1 - la_working_days application'\<rparr>;
                          b3 = b2\<lparr>lb_closing_balance :=
                                 lb_opening_balance b2 + lb_accrued_days b2
                                 + lb_carried_forward_days b2 - lb_taken_days b2\<rparr>
                      in case save_balance now b3 (leave_balances s1) of
                           Inl e \<Rightarrow> (Decimal_error, s1)
                         | Inr rows \<Rightarrow> (done, s1\<lparr>leave_balances := rows\<rparr>))))"

text \<open>
  \<open>rejection_reason\<close> is a \<open>TextField\<close> without \<open>null=True\<close>: with no \<open>reason\<close> in the
  form, \<open>request.POST.get('reason')\<close> is \<open>None\<close> and \<open>application.save()\<close> raises
  \<open>IntegrityError\<close> before anything is written.
\<close>

definition leave_application_reject :: "datetime \<Rightarrow> nat \<Rightarrow> request \<Rightarrow> db \<Rightarrow> http_response \<times> db" where
  "leave_application_reject now application_id =
     login_required (\<lambda>request s.
       case by_pk application_id (leave_applications s) of
         None \<Rightarrow> (Page_not_found, s)
       | Some application \<Rightarrow>
           if req_method request = POST
           then (case req_post_reason request of
                   None \<Rightarrow> (Integrity_error, s)
                 | Some reason \<Rightarrow>
                     (let application' = pre_save now
                            (application\<lparr>la_status := Rejected, la_rejected_date := Some now,
                               la_rejection_reason := reason\<rparr>);
                          s1 = s\<lparr>leave_applications :=
                                 write_row application' (leave_applications s)\<rparr>;
                          done = Redirect ''leave_application_list''
                            (Message_success ''Leave application rejected.'')
                      in case balance_of application' s1 of
                           None \<Rightarrow> (done, s1)
                         | Some balance \<Rightarrow>
                             (done,
                              s1\<lparr>leave_balances :=
                                   save now (balance\<lparr>lb_pending_days :=
                                       lb_pending_days balance - la_working_days application'\<rparr>)
                                     (leave_balances s1)\<rparr>)))
           else (Render ''hr_payroll/leave_reject.html'', s))"

definition payroll_period_detail :: "nat \<Rightarrow> request \<Rightarrow> db \<Rightarrow> http_response \<times> db" where
  "payroll_period_detail period_id =
     login_required (\<lambda>request s.
       case by_pk period_id (payroll_periods s) of
         None \<Rightarrow> (Page_not_found, s)
       | Some period \<Rightarrow> (Render ''hr_payroll/payroll_period_detail.html'', s))"

definition payroll_calculation_detail :: "nat \<Rightarrow> request \<Rightarrow> db \<Rightarrow> http_response \<times> db" where
  "payroll_calculation_detail calculation_id =
     login_required (\<lambda>request s.
       case by_pk calculation_id (payroll_calculations s) of
         None \<Rightarrow> (Page_not_found, s)
       | Some calculation \<Rightarrow> (Render ''hr_payroll/payslip_view.html'', s))"

subsection \<open>The other views of workforce/views.py that look a row up by the id of the URL\<close>

text \<open>
  Each of these views is \<open>@login_required\<close> and starts with \<open>get_object_or_404\<close> on the id
  of its URL. What it does with the row found (collecting related rows, handling a form,
  generating a file) is the parameter \<open>rest\<close>.
\<close>

definition employee_detail :: "(employee \<Rightarrow> request \<Rightarrow> db \<Rightarrow> http_response \<times> db) \<Rightarrow> nat
    \<Rightarrow> request \<Rightarrow> db \<Rightarrow> http_response \<times> db" where
  "employee_detail rest employee_id =
     login_required (\<lambda>request s.
       case by_pk employee_id (employees s) of
         None \<Rightarrow> (Page_not_found, s)
       | Some employee \<Rightarrow> rest employee request s)"

definition employee_edit :: "(employee \<Rightarrow> request \<Rightarrow> db \<Rightarrow> http_response \<times> db) \<Rightarrow> nat
    \<Rightarrow> request \<Rightarrow> db \<Rightarrow> http_response \<times> db" where
  "employee_edit rest employee_id =
     login_required (\<lambda>request s.
       case by_pk employee_id (employees s) of
         None \<Rightarrow> (Page_not_found, s)
       | Some employee \<Rightarrow> rest employee request s)"

definition download_payslip_pdf :: "(payroll_calculation \<Rightarrow> request \<Rightarrow> db \<Rightarrow> http_response \<times> db)
    \<Rightarrow> nat \<Rightarrow> request \<Rightarrow> db \<Rightarrow> http_response \<times> db" where
  "download_payslip_pdf rest calculation_id =
     login_required (\<lambda>request s.
       case by_pk calculation_id (payroll_calculations s) of
         None \<Rightarrow> (Page_not_found, s)
       | Some calculation \<Rightarrow> rest calculation request s)"

definition download_payroll_register_excel :: "(payroll_period \<Rightarrow> request \<Rightarrow> db \<Rightarrow> http_response \<times> db)
    \<Rightarrow> nat \<Rightarrow> request \<Rightarrow> db \<Rightarrow> http_response \<times> db" where
  "download_payroll_register_excel rest period_id =
     login_required (\<lambda>request s.
       case by_pk period_id (payroll_periods s) of
         None \<Rightarrow> (Page_not_found, s)
       | Some period \<Rightarrow> rest period request s)"

section \<open>Report views (workforce/views\_reports.py)\<close>

text \<open>
  The three class-based report views with an id in their URL. Each has
  \<open>LoginRequiredMixin\<close>; its \<open>get\<close> looks the row up with \<open>objects.get(id=...)\<close> and answers
  \<open>DoesNotExist\<close> with a JSON response of status 404. \<open>rest\<close> is the generation of the file
  from the row found.
\<close>

definition PayslipPDFView_get :: "(payroll_calculation \<Rightarrow> request \<Rightarrow> db \<Rightarrow> http_response \<times> db)
    \<Rightarrow> nat \<Rightarrow> request \<Rightarrow> db \<Rightarrow> http_response \<times> db" where
  "PayslipPDFView_get rest calculation_id =
     login_required (\<lambda>request s.
       case by_pk calculation_id (payroll_calculations s) of
         None \<Rightarrow> (Json_response 404 ''Payroll calculation not found'', s)
       | Some calculation \<Rightarrow> rest calculation request s)"

definition PayrollRegisterPDFView_get :: "(payroll_period \<Rightarrow> request \<Rightarrow> db \<Rightarrow> http_response \<times> db)
    \<Rightarrow> nat \<Rightarrow> request \<Rightarrow> db \<Rightarrow> http_response \<times> db" where
  "PayrollRegisterPDFView_get rest period_id =
     login_required (\<lambda>request s.
       case by_pk period_id (payroll_periods s) of
         None \<Rightarrow> (Json_response 404 ''Payroll period not found'', s)
       | Some period \<Rightarrow> rest period request s)"

definition PayrollRegisterExcelView_get :: "(payroll_period \<Rightarrow> request \<Rightarrow> db \<Rightarrow> http_response \<times> db)
    \<Rightarrow> nat \<Rightarrow> request \<Rightarrow> db \<Rightarrow> http_response \<times> db" where
  "PayrollRegisterExcelView_get rest period_id =
     login_required (\<lambda>request s.
       case by_pk period_id (payroll_periods s) of
         None \<Rightarrow> (Json_response 404 ''Payroll period not found'', s)
       | Some period \<Rightarrow> rest period request s)"

section \<open>Account views (accounts/views.py)\<close>

text \<open>
  Modelled from the spec: \<open>accounts/models.py\<close> and \<open>accounts/decorators.py\<close> are not among
  the sources. The spec describes a "user model with role flags (student/lecturer/admin)";
  of a user the lookups below read the primary key and the two flags they filter on, of a
  student its primary key and the user it belongs to (the column \<open>student_id\<close>). The
  decorator \<open>admin_required\<close> is a parameter of every view it decorates, and
  \<open>lets_through\<close> says that it runs the view it decorates on a request.
\<close>

record user =
  user_pk :: nat
  is_student :: bool
  is_lecturer :: bool

record student =
  student_pk :: nat
  student_id :: nat

record accounts_db =
  users :: "user list"
  students :: "student list"

type_synonym account_view = "request \<Rightarrow> accounts_db \<Rightarrow> http_response \<times> accounts_db"

definition lets_through :: "(account_view \<Rightarrow> account_view) \<Rightarrow> request \<Rightarrow> accounts_db \<Rightarrow> bool" where
  "lets_through decorator request s = (\<forall>view. decorator view request s = view request s)"

text \<open>
  The views with an id in their URL. Each is \<open>@login_required\<close> and \<open>@admin_required\<close>.
  \<open>user_quick_actions_ajax\<close> answers every method but POST with 405 before its lookup, and
  \<open>DoesNotExist\<close> with a JSON response of status 404; \<open>profile_single\<close> sends the requester
  asking for their own id to \<open>profile\<close>; the others start with \<open>get_object_or_404\<close>. \<open>rest\<close> is
  what the view does with the row found.
\<close>

definition user_quick_actions_ajax :: "(account_view \<Rightarrow> account_view) \<Rightarrow> (user \<Rightarrow> account_view)
    \<Rightarrow> nat \<Rightarrow> account_view" where
  "user_quick_actions_ajax admin_required rest user_id =
     login_required (admin_required (\<lambda>request s.
       if req_method request \<noteq> POST
       then (Json_response 405 ''Invalid request method'', s)
       else (case find (\<lambda>u. user_pk u = user_id) (users s) of
               None \<Rightarrow> (Json_response 404 ''User not found'', s)
             | Some user \<Rightarrow> rest user request s)))"

definition profile_single :: "(account_view \<Rightarrow> account_view) \<Rightarrow> (user \<Rightarrow> account_view)
    \<Rightarrow> nat \<Rightarrow> account_view" where
  "profile_single admin_required rest user_id =
     login_required (admin_required (\<lambda>request s.
       if req_user request = Some user_id
       then (Redirect_plain ''profile'', s)
       else (case find (\<lambda>u. user_pk u = user_id) (users s) of
               None \<Rightarrow> (Page_not_found, s)
             | Some user \<Rightarrow> rest user request s)))"

definition edit_staff :: "(account_view \<Rightarrow> account_view) \<Rightarrow> (user \<Rightarrow> account_view)
    \<Rightarrow> nat \<Rightarrow> account_view" where
  "edit_staff admin_required rest key =
     login_required (admin_required (\<lambda>request s.
       case find (\<lambda>u. is_lecturer u \<and> user_pk u = key) (users s) of
         None \<Rightarrow> (Page_not_found, s)
       | Some lecturer \<Rightarrow> rest lecturer request s))"

definition delete_staff :: "(account_view \<Rightarrow> account_view) \<Rightarrow> (user \<Rightarrow> account_view)
    \<Rightarrow> nat \<Rightarrow> account_view" where
  "delete_staff admin_required rest key =
     login_required (admin_required (\<lambda>request s.
       case find (\<lambda>u. is_lecturer u \<and> user_pk u = key) (users s) of
         None \<Rightarrow> (Page_not_found, s)
       | Some lecturer \<Rightarrow> rest lecturer request s))"

definition edit_student :: "(account_view \<Rightarrow> account_view) \<Rightarrow> (user \<Rightarrow> account_view)
    \<Rightarrow> nat \<Rightarrow> account_view" where
  "edit_student admin_required rest key =
     login_required (admin_required (\<lambda>request s.
       case find (\<lambda>u. is_student u \<and> user_pk u = key) (users s) of
         None \<Rightarrow> (Page_not_found, s)
       | Some student_user \<Rightarrow> rest student_user request s))"

definition delete_student :: "(account_view \<Rightarrow> account_view) \<Rightarrow> (student \<Rightarrow> account_view)
    \<Rightarrow> nat \<Rightarrow> account_view" where
  "delete_student admin_required rest key =
     login_required (admin_required (\<lambda>request s.
       case find (\<lambda>t. student_pk t = key) (students s) of
         None \<Rightarrow> (Page_not_found, s)
       | Some student \<Rightarrow> rest student request s))"

text \<open>\<open>edit_student_program\<close> looks up the student of the user, then the user.\<close>

definition edit_student_program :: "(account_view \<Rightarrow> account_view)
    \<Rightarrow> (student \<Rightarrow> user \<Rightarrow> account_view) \<Rightarrow> nat \<Rightarrow> account_view" where
  "edit_student_program admin_required rest key =
     login_required (admin_required (\<lambda>request s.
       case find (\<lambda>t. student_id t = key) (students s) of
         None \<Rightarrow> (Page_not_found, s)
       | Some student \<Rightarrow>
           (case find (\<lambda>u. user_pk u = key) (users s) of
              None \<Rightarrow> (Page_not_found, s)
            | Some user \<Rightarrow> rest student user request s)))"

text \<open>
  \<open>FirstTimeSetupView.dispatch\<close> takes no id from its URL: it looks up the user whose id
  the login view left in the session, here \<open>session_user_id\<close>, and answers a missing row
  with a redirect to the login page.
\<close>

definition FirstTimeSetupView_dispatch :: "(user \<Rightarrow> account_view) \<Rightarrow> nat option \<Rightarrow> account_view" where
  "FirstTimeSetupView_dispatch rest session_user_id request s =
     (case session_user_id of
        None \<Rightarrow> (Redirect ''login'' (Message_error ''Invalid access. Please login first.''), s)
      | Some user_id \<Rightarrow>
          (case find (\<lambda>u. user_pk u = user_id) (users s) of
             None \<Rightarrow> (Redirect ''login'' (Message_error ''User not found.''), s)
           | Some user \<Rightarrow> rest user request s))"

section \<open>The admin site for PayrollCalculation (workforce/admin.py)\<close>

text \<open>
  \<open>PayrollCalculationAdmin\<close> is registered for \<open>PayrollCalculation\<close>; nothing else in the
  repository adds a calculation or changes its fields. Its add and change forms take every field but the
  read-only ones (\<open>calculated_at\<close>, \<open>calculated_by\<close>, \<open>approved_at\<close>, \<open>approved_by\<close>) and
  the columns Django maintains. \<open>Meta.unique_together = ['employee', 'payroll_period']\<close>
  makes the form invalid when another row has the same pair (\<open>validate_unique\<close>), and
  the two foreign keys must name existing rows.
\<close>

definition validate_unique :: "payroll_calculation \<Rightarrow> payroll_calculation list \<Rightarrow> bool" where
  "validate_unique obj rows =
     (find (\<lambda>r. pk r \<noteq> pk obj \<and> pc_employee r = pc_employee obj
                 \<and> pc_payroll_period r = pc_payroll_period obj) rows = None)"

definition form_valid :: "payroll_calculation \<Rightarrow> db \<Rightarrow> bool" where
  "form_valid obj s =
     (if by_pk (pc_employee obj) (employees s) = None then False
      else if by_pk (pc_payroll_period obj) (payroll_periods s) = None then False
      else validate_unique obj (payroll_calculations s))"

text \<open>\<open>form\<close> holds the posted values; the result says whether the form was valid.\<close>

definition PayrollCalculationAdmin_add :: "datetime \<Rightarrow> payroll_calculation \<Rightarrow> db \<Rightarrow> bool \<times> db" where
  "PayrollCalculationAdmin_add now form s =
     (let obj = form\<lparr>pk := next_pk (payroll_calculations s),
                   created_at := now, updated_at := now,
                   created_by := None, updated_by := None,
                   pc_calculated_at := now, pc_calculated_by := None,
                   pc_approved_at := None, pc_approved_by := None\<rparr>
      in if form_valid obj s
         then (True, s\<lparr>payroll_calculations := payroll_calculations s @ [obj]\<rparr>)
         else (False, s))"

definition PayrollCalculationAdmin_change :: "datetime \<Rightarrow> nat \<Rightarrow> payroll_calculation \<Rightarrow> db
    \<Rightarrow> bool \<times> db" where
  "PayrollCalculationAdmin_change now i form s =
     (case by_pk i (payroll_calculations s) of
        None \<Rightarrow> (False, s)
      | Some old \<Rightarrow>
          (let obj = form\<lparr>pk := i,
                        created_at := created_at old, updated_at := now,
                        created_by := created_by old, updated_by := updated_by old,
                        pc_calculated_at := pc_calculated_at old,
                        pc_calculated_by := pc_calculated_by old,
                        pc_approved_at := pc_approved_at old,
                        pc_approved_by := pc_approved_by old\<rparr>
           in if form_valid obj s
              then (True, s\<lparr>payroll_calculations := write_row obj (payroll_calculations s)\<rparr>)
              else (False, s)))"

text \<open>Deleting a calculation deletes its detail lines (\<open>on_delete=CASCADE\<close>).\<close>

definition PayrollCalculationAdmin_delete :: "nat \<Rightarrow> db \<Rightarrow> bool \<times> db" where
  "PayrollCalculationAdmin_delete i s =
     (case by_pk i (payroll_calculations s) of
        None \<Rightarrow> (False, s)
      | Some obj \<Rightarrow>
          (True,
           s\<lparr>payroll_calculations := filter (\<lambda>r. pk r \<noteq> i) (payroll_calculations s),
             payroll_calculation_details :=
               filter (\<lambda>d. pcd_payroll_calculation d \<noteq> i) (payroll_calculation_details s)\<rparr>))"

section \<open>Sequences of operations\<close>

text \<open>
  The operations that sequences are made of: the REST actions and routes, the four leave
  and payroll views and the three admin operations that are defined above in full, each
  with the arguments of its call. Deleting a payroll period or an employee through the
  admin site has the effect of the \<open>DELETE\<close> route on the tables modelled here.
\<close>

datatype operation =
    Submit datetime nat
  | Leave_approve datetime nat
  | Leave_reject datetime "string option" nat
  | Accrue_monthly datetime
  | Process datetime nat
  | Approve datetime nat nat
  | Delete_period nat
  | Delete_employee nat
  | Breakdown nat
  | View_approve datetime nat request
  | View_reject datetime nat request
  | View_period nat request
  | View_calculation nat request
  | Admin_add datetime payroll_calculation
  | Admin_change datetime nat payroll_calculation
  | Admin_delete nat

fun perform :: "operation \<Rightarrow> db \<Rightarrow> db" where
  "perform (Submit now i) s = snd (LeaveApplicationViewSet_submit now i s)"
| "perform (Leave_approve now i) s = snd (LeaveApplicationViewSet_approve now i s)"
| "perform (Leave_reject now reason i) s = snd (LeaveApplicationViewSet_reject now reason i s)"
| "perform (Accrue_monthly now) s = snd (accrue_monthly now s)"
| "perform (Process now i) s = snd (PayrollPeriodViewSet_process now i s)"
| "perform (Approve now user i) s = snd (PayrollPeriodViewSet_approve now user i s)"
| "perform (Delete_period i) s = snd (PayrollPeriodViewSet_destroy i s)"
| "perform (Delete_employee i) s = snd (EmployeeViewSet_destroy i s)"
| "perform (Breakdown i) s = snd (PayrollCalculationViewSet_breakdown i s)"
| "perform (View_approve now i request) s = snd (leave_application_approve now i request s)"
| "perform (View_reject now i request) s = snd (leave_application_reject now i request s)"
| "perform (View_period i request) s = snd (payroll_period_detail i request s)"
| "perform (View_calculation i request) s = snd (payroll_calculation_detail i request s)"
| "perform (Admin_add now form) s = snd (PayrollCalculationAdmin_add now form s)"
| "perform (Admin_change now i form) s = snd (PayrollCalculationAdmin_change now i form s)"
| "perform (Admin_delete i) s = snd (PayrollCalculationAdmin_delete i s)"

definition run :: "operation list \<Rightarrow> db \<Rightarrow> db" where
  "run ops s = fold perform ops s"

fun period_action :: "operation \<Rightarrow> bool" where
  "period_action (Process now i) = True"
| "period_action (Approve now user i) = True"
| "period_action _ = False"

fun admin_form :: "operation \<Rightarrow> bool" where
  "admin_form (Admin_add now form) = True"
| "admin_form (Admin_change now i form) = True"
| "admin_form _ = False"

fun deletion :: "operation \<Rightarrow> bool" where
  "deletion (Delete_period i) = True"
| "deletion (Delete_employee i) = True"
| "deletion (Admin_delete i) = True"
| "deletion _ = False"

section \<open>Properties of rows and tables\<close>

text \<open>The closing balance as the two handlers that recompute it write it.\<close>

definition closing_recomputed :: "employee_leave_balance \<Rightarrow> bool" where
  "closing_recomputed b =
     (lb_closing_balance b =
        lb_opening_balance b + lb_accrued_days b + lb_carried_forward_days b - lb_taken_days b)"

text \<open>The closing balance of the data model's description, less encashed and forfeited days.\<close>

definition closing_expected :: "employee_leave_balance \<Rightarrow> bool" where
  "closing_expected b =
     (lb_closing_balance b =
        lb_opening_balance b + lb_accrued_days b + lb_carried_forward_days b
        - lb_taken_days b - lb_encashed_days b - lb_forfeited_days b)"

text \<open>The primary key and \<open>unique_together\<close> of \<open>EmployeeLeaveBalance\<close>.\<close>

definition balance_key :: "employee_leave_balance \<Rightarrow> nat \<times> nat \<times> nat" where
  "balance_key b = (lb_employee b, lb_leave_type b, lb_year b)"

definition balances_wf :: "employee_leave_balance list \<Rightarrow> bool" where
  "balances_wf rows = (distinct (map pk rows) \<and> distinct (map balance_key rows))"

definition calculation_key :: "payroll_calculation \<Rightarrow> nat \<times> nat" where
  "calculation_key c = (pc_employee c, pc_payroll_period c)"

definition calculations_wf :: "payroll_calculation list \<Rightarrow> bool" where
  "calculations_wf rows = (distinct (map pk rows) \<and> distinct (map calculation_key rows))"

definition line_total :: "item_type \<Rightarrow> payroll_calculation \<Rightarrow> db \<Rightarrow> decimal" where
  "line_total ty c s =
     sum_list (map pcd_amount (filter (\<lambda>d. pcd_item_type d = ty) (details_of c s)))"

definition totals_agree :: "payroll_calculation \<Rightarrow> db \<Rightarrow> bool" where
  "totals_agree c s =
     (line_total Earning c s = pc_total_earnings c
      \<and> line_total Deduction c s = pc_total_deductions c)"

section \<open>A small database for concrete runs\<close>

text \<open>
  One active employee, one active leave type accruing 1.75 days a month, the employee's
  balance for 2024 (10 days accrued, 2 encashed, closing balance 8), a draft application
  for 3 working days in April 2024 and one open payroll period.
\<close>

definition t0 :: datetime where
  "t0 = DateTime (Date 2024 1 10) 0"

definition t1 :: datetime where
  "t1 = DateTime (Date 2024 3 5) 36000"

definition sample_employee :: employee where
  "sample_employee =
     \<lparr>pk = 4, created_at = t0, updated_at = t0, created_by = None, updated_by = None,
      employee_no = ''E004'', first_name = ''Ada'', middle_name = [], last_name = ''Njeri'',
      employment_status = Active, emp_department = None\<rparr>"

definition sample_leave_type :: leave_type where
  "sample_leave_type =
     \<lparr>pk = 2, created_at = t0, updated_at = t0, created_by = None, updated_by = None,
      lt_code = ''AL'', lt_name = ''Annual'', lt_accrual_rate = 175, lt_is_active = True\<rparr>"

definition sample_balance :: employee_leave_balance where
  "sample_balance =
     \<lparr>pk = 7, created_at = t0, updated_at = t0, created_by = None, updated_by = None,
      lb_employee = 4, lb_leave_type = 2, lb_year = 2024,
      lb_opening_balance = 0, lb_accrued_days = 1000, lb_carried_forward_days = 0,
      lb_adjustment_days = 0, lb_taken_days = 0, lb_pending_days = 0,
      lb_encashed_days = 200, lb_forfeited_days = 0, lb_closing_balance = 800,
      lb_last_accrual_date = None, lb_next_accrual_date = None\<rparr>"

definition sample_application :: leave_application where
  "sample_application =
     \<lparr>pk = 1, created_at = t0, updated_at = t0, created_by = None, updated_by = None,
      la_employee = 4, la_leave_type = 2, la_application_date = Date 2024 3 1,
      la_start_date = Date 2024 4 1, la_end_date = Date 2024 4 3,
      la_total_days = 300, la_working_days = 300, la_reason = ''rest'',
      la_emergency_contact_during_leave = [], la_emergency_phone = [],
      la_return_date = Date 2024 4 4, la_acting_employee = None,
      la_supporting_document_path = [], la_medical_certificate_path = [],
      la_status = Draft, la_current_approver = None, la_submitted_date = None,
      la_approved_date = None, la_rejected_date = None, la_rejection_reason = [],
      la_cancelled_date = None, la_cancellation_reason = [],
      la_actual_return_date = None, la_remarks = []\<rparr>"

definition sample_period :: payroll_period where
  "sample_period =
     \<lparr>pk = 3, created_at = t0, updated_at = t0, created_by = None, updated_by = None,
      pp_period_name = ''March 2024'', pp_period_type = Monthly,
      pp_start_date = Date 2024 3 1, pp_end_date = Date 2024 3 31,
      pp_payment_date = Date 2024 3 28, pp_status = Open,
      pp_total_gross_pay = 0, pp_total_deductions = 0, pp_total_net_pay = 0,
      pp_employee_count = 0, pp_processing_started_at = None,
      pp_processing_completed_at = None, pp_approved_by = None, pp_approved_date = None,
      pp_locked = False, pp_notes = []\<rparr>"

definition sample_db :: db where
  "sample_db =
     \<lparr>departments = [], employees = [sample_employee], leave_types = [sample_leave_type],
      leave_balances = [sample_balance], leave_applications = [sample_application],
      payroll_periods = [sample_period], payroll_calculations = [],
      payroll_calculation_details = []\<rparr>"

text \<open>The same application submitted (its 3 days pending), and the database without the balance.\<close>

definition submitted_application :: leave_application where
  "submitted_application =
     sample_application\<lparr>la_status := Submitted, la_submitted_date := Some t0\<rparr>"

definition submitted_db :: db where
  "submitted_db =
     sample_db\<lparr>leave_balances := [sample_balance\<lparr>lb_pending_days := 300\<rparr>],
       leave_applications := [submitted_application]\<rparr>"

definition no_balance_db :: db where
  "no_balance_db = sample_db\<lparr>leave_balances := []\<rparr>"

text \<open>The period once calculated, as only a write outside the two actions can make it.\<close>

definition calculated_db :: db where
  "calculated_db = sample_db\<lparr>payroll_periods := [sample_period\<lparr>pp_status := Calculated\<rparr>]\<rparr>"

text \<open>A posted admin form: 1000.00 of earnings for employee 4 in period 3.\<close>

definition sample_form :: payroll_calculation where
  "sample_form =
     \<lparr>pk = 0, created_at = t0, updated_at = t0, created_by = None, updated_by = None,
      pc_employee = 4, pc_payroll_period = 3, pc_basic_salary = 100000,
      pc_total_earnings = 100000, pc_total_allowances = 0, pc_total_overtime = 0,
      pc_total_bonuses = 0, pc_gross_pay = 100000, pc_total_statutory_deductions = 0,
      pc_total_voluntary_deductions = 0, pc_total_loan_deductions = 0,
      pc_total_deductions = 0, pc_taxable_income = 100000, pc_tax_amount = 0,
      pc_pension_employee = 0, pc_pension_employer = 0, pc_net_pay = 100000,
      pc_employer_cost = 100000, pc_payment_method = Bank_transfer,
      pc_bank_account_number = [], pc_payment_status = Payment_pending,
      pc_payment_date = None, pc_payment_reference = [], pc_notes = [],
      pc_calculated_at = t0, pc_calculated_by = None, pc_approved_at = None,
      pc_approved_by = None\<rparr>"

definition staff_post :: request where
  "staff_post = \<lparr>req_user = Some 9, req_method = POST, req_post_reason = Some ''no cover''\<rparr>"

definition anonymous_get :: request where
  "anonymous_get = \<lparr>req_user = None, req_method = GET, req_post_reason = None\<rparr>"

text \<open>
  A database with one calculation, as the admin form above stores it, and its one detail
  line; the employee now has a department.
\<close>

definition sample_department :: department where
  "sample_department =
     \<lparr>pk = 6, created_at = t0, updated_at = t0, created_by = None, updated_by = None,
      dept_code = ''FIN'', dept_name = ''Finance''\<rparr>"

definition sample_calculation :: payroll_calculation where
  "sample_calculation = sample_form\<lparr>pk := 1\<rparr>"

definition sample_line :: payroll_calculation_detail where
  "sample_line =
     \<lparr>pk = 1, created_at = t0, updated_at = t0, created_by = None, updated_by = None,
      pcd_payroll_calculation = 1, pcd_item_type = Earning, pcd_earning_type = None,
      pcd_deduction_type = None, pcd_description = ''Basic salary'', pcd_amount = 100000,
      pcd_is_taxable = True, pcd_is_pensionable = True, pcd_units = None, pcd_rate = None,
      pcd_gl_account_code = ''5000''\<rparr>"

definition payslip_db :: db where
  "payslip_db =
     sample_db\<lparr>departments := [sample_department],
       employees := [sample_employee\<lparr>emp_department := Some 6\<rparr>],
       payroll_calculations := [sample_calculation],
       payroll_calculation_details := [sample_line]\<rparr>"

text \<open>
  The same with a second employee, 5, and a calculation of theirs without detail lines.
\<close>

definition two_slips_db :: db where
  "two_slips_db =
     payslip_db\<lparr>employees :=
         [sample_employee\<lparr>emp_department := Some 6\<rparr>,
          sample_employee\<lparr>pk := 5, employee_no := ''E005''\<rparr>],
       payroll_calculations :=
         [sample_calculation, sample_form\<lparr>pk := 2, pc_employee := 5\<rparr>]\<rparr>"

text \<open>An authenticated GET, and an account database whose one user is a lecturer with id 9.\<close>

definition staff_get :: request where
  "staff_get = \<lparr>req_user = Some 9, req_method = GET, req_post_reason = None\<rparr>"

definition sample_accounts :: accounts_db where
  "sample_accounts =
     \<lparr>users = [\<lparr>user_pk = 9, is_student = False, is_lecturer = True\<rparr>], students = []\<rparr>"

text \<open>The sample balance with 9999.00 days accrued: one more accrual does not fit the column.\<close>

definition full_db :: db where
  "full_db =
     sample_db\<lparr>leave_balances :=
       [sample_balance\<lparr>lb_accrued_days := 999900, lb_closing_balance := 999900\<rparr>]\<rparr>"

section \<open>Lookups after a save\<close>

lemma pk_pre_save [simp]: "pk (pre_save now r) = pk r"
  by (simp add: pre_save_def)

lemma by_pk_write_row_same: "by_pk (pk r) (write_row r rows) = Some r"
  by (induction rows) (simp_all add: by_pk_def)

lemma by_pk_write_row_at: "pk r = j \<Longrightarrow> by_pk j (write_row r rows) = Some r"
  using by_pk_write_row_same [of r rows] by simp

lemma by_pk_write_row_other: "pk r \<noteq> j \<Longrightarrow> by_pk j (write_row r rows) = by_pk j rows"
  by (induction rows) (auto simp: by_pk_def)

lemma by_pk_save_same: "pk r = j \<Longrightarrow> by_pk j (save now r rows) = Some (pre_save now r)"
  by (simp add: save_def by_pk_write_row_at)


lemma by_pk_Some_pk: "by_pk i rows = Some r \<Longrightarrow> pk r = i"
  by (auto simp: by_pk_def dest: find_Some_iff [THEN iffD1])

section \<open>What each leave handler returns and writes\<close>


lemma submit_no_balance:
  assumes "by_pk i (leave_applications s) = Some app" and "la_status app = Draft"
    and "balance_of app s = None"
  shows "LeaveApplicationViewSet_submit now i s =
     (Inr (app\<lparr>la_status := Submitted, la_submitted_date := Some now, updated_at := now\<rparr>),
      s\<lparr>leave_applications :=
           write_row (app\<lparr>la_status := Submitted, la_submitted_date := Some now,
                        updated_at := now\<rparr>) (leave_applications s)\<rparr>)"
  using assms
  by (simp add: LeaveApplicationViewSet_submit_def get_object_def submit_checked_def Let_def
        balance_of_def pre_save_def)


lemma view_approve_found:
  assumes "req_user request \<noteq> None"
    and "by_pk i (leave_applications s) = Some app"
    and "la_status app \<in> {Submitted, Pending_approval}"
  shows "leave_application_approve now i request s =
     (let app' = app\<lparr>la_status := Approved, la_approved_date := Some now, updated_at := now\<rparr>;
          s1 = s\<lparr>leave_applications := write_row app' (leave_applications s)\<rparr>;
          done = Redirect ''leave_application_list''
                   (Message_success ''Leave application approved!'')
      in case balance_of app s of
           None \<Rightarrow> (done, s1)
         | Some b \<Rightarrow>
             (let b3 = b\<lparr>lb_taken_days := lb_taken_days b + la_working_days app,
                         lb_pending_days := lb_pending_days b - la_working_days app,
                         lb_closing_balance :=
                           lb_opening_balance b + lb_accrued_days b + lb_carried_forward_days b
                           - (lb_taken_days b + la_working_days app)\<rparr>
              in if balance_fits b3
                 then (done, s1\<lparr>leave_balances := save now b3 (leave_balances s)\<rparr>)
                 else (Decimal_error, s1)))"
  using assms
  by (auto simp add: leave_application_approve_def login_required_def Let_def pre_save_def
        balance_of_def save_balance_def split: option.splits)


lemmas sample_defs =
  sample_db_def sample_application_def sample_balance_def sample_employee_def
  sample_leave_type_def sample_period_def submitted_db_def submitted_application_def
  no_balance_db_def calculated_db_def sample_form_def staff_post_def anonymous_get_def
  sample_department_def sample_calculation_def sample_line_def payslip_db_def
  staff_get_def sample_accounts_def full_db_def two_slips_db_def t0_def t1_def

section \<open>Submitting a leave application\<close>




text \<open>
  C10. For a draft application with no balance row for its employee, leave type and
  start year, \<open>submit\<close> makes no balance check: whatever the working days asked for, it
  answers with the application, stored as submitted, and the table of balances is the
  same list of rows as before, none added and none changed.
\<close>

theorem submit_without_balance:
  assumes "by_pk i (leave_applications s) = Some app" and "la_status app = Draft"
    and "balance_of app s = None"
  shows "fst (LeaveApplicationViewSet_submit now i s)
           = Inr (app\<lparr>la_status := Submitted, la_submitted_date := Some now, updated_at := now\<rparr>)
       \<and> by_pk i (leave_applications (snd (LeaveApplicationViewSet_submit now i s)))
           = Some (app\<lparr>la_status := Submitted, la_submitted_date := Some now,
                        updated_at := now\<rparr>)
       \<and> leave_balances (snd (LeaveApplicationViewSet_submit now i s)) = leave_balances s"
proof -
  have "pk app = i"
    using assms(1) by (rule by_pk_Some_pk)
  then show ?thesis
    by (simp add: submit_no_balance [OF assms] by_pk_write_row_at)
qed

theorem submit_without_balance_witness:
  "by_pk 1 (leave_applications (no_balance_db\<lparr>leave_applications :=
       [sample_application\<lparr>la_working_days := 99999\<rparr>]\<rparr>))
     = Some (sample_application\<lparr>la_working_days := 99999\<rparr>)
   \<and> fst (LeaveApplicationViewSet_submit t1 1
            (no_balance_db\<lparr>leave_applications :=
               [sample_application\<lparr>la_working_days := 99999\<rparr>]\<rparr>))
       = Inr (sample_application\<lparr>la_working_days := 99999, la_status := Submitted,
                la_submitted_date := Some t1, updated_at := t1\<rparr>)
   \<and> leave_balances (snd (LeaveApplicationViewSet_submit t1 1
            (no_balance_db\<lparr>leave_applications :=
               [sample_application\<lparr>la_working_days := 99999\<rparr>]\<rparr>))) = []"
proof -
  let ?app = "sample_application\<lparr>la_working_days := 99999\<rparr>"
  let ?s = "no_balance_db\<lparr>leave_applications := [?app]\<rparr>"
  have h1: "by_pk 1 (leave_applications ?s) = Some ?app"
    by (simp add: by_pk_def sample_application_def)
  have h2: "la_status ?app = Draft"
    by (simp add: sample_application_def)
  have h3: "balance_of ?app ?s = None"
    by (simp add: balance_of_def balance_row_def no_balance_db_def sample_db_def)
  have "leave_balances ?s = []"
    by (simp add: no_balance_db_def sample_db_def)
  then show ?thesis
    using submit_without_balance [OF h1 h2 h3, of t1] h1 by simp
qed

section \<open>Approving a leave application\<close>

text \<open>
  C1 at a concrete input. The application of the sample database has been submitted, so
  its 3 days are pending on the balance. The REST action \<open>approve\<close> stores it as
  approved and answers with it, but writes no balance: the row still has 0 days taken and
  3 days pending, and its closing balance is not recomputed.
\<close>

theorem api_approve_skips_balance:
  "fst (LeaveApplicationViewSet_approve t1 1 submitted_db)
     = Inr (submitted_application\<lparr>la_status := Approved, la_approved_date := Some t1,
              updated_at := t1\<rparr>)
   \<and> leave_applications (snd (LeaveApplicationViewSet_approve t1 1 submitted_db))
     = [submitted_application\<lparr>la_status := Approved, la_approved_date := Some t1,
          updated_at := t1\<rparr>]
   \<and> leave_balances (snd (LeaveApplicationViewSet_approve t1 1 submitted_db))
     = [sample_balance\<lparr>lb_taken_days := 0, lb_pending_days := 300\<rparr>]"
  by (simp add: LeaveApplicationViewSet_approve_def get_object_def by_pk_def sample_defs
        pre_save_def Let_def)

text \<open>
  The HTML view \<open>leave_application_approve\<close> on the same input does what the REST action
  leaves out: 3 days taken, none pending, the closing balance recomputed to 7.
\<close>

lemma view_approve_updates_balance:
  "leave_balances (snd (leave_application_approve t1 1 staff_post submitted_db))
     = [sample_balance\<lparr>lb_taken_days := 300, lb_pending_days := 0,
          lb_closing_balance := 700, updated_at := t1\<rparr>]"
  by (simp add: leave_application_approve_def login_required_def by_pk_def sample_defs
        balance_of_def balance_row_def save_balance_def balance_fits_def fits_def save_def
        pre_save_def Let_def)

text \<open>The REST action never writes a balance, whatever its input.\<close>

lemma api_approve_balances:
  "leave_balances (snd (LeaveApplicationViewSet_approve now i s)) = leave_balances s"
  by (simp add: LeaveApplicationViewSet_approve_def Let_def split: sum.splits)

section \<open>Rejecting a leave application\<close>



section \<open>Approving a payroll period\<close>

text \<open>
  C6. For an existing payroll period, \<open>approve\<close> answers with the period exactly when
  its status is calculated. It then stores the period as approved, with the requesting
  user as \<open>approved_by\<close> and the current date as \<open>approved_date\<close>. For any other status
  it answers with the error response and the database is the one it was given, so no
  field of the period has changed.
\<close>

theorem period_approve:
  assumes "by_pk i (payroll_periods s) = Some p"
  shows "((\<exists>d. fst (PayrollPeriodViewSet_approve now user i s) = Inr d)
            = (pp_status p = Calculated))
       \<and> (pp_status p = Calculated \<longrightarrow>
            fst (PayrollPeriodViewSet_approve now user i s)
              = Inr (p\<lparr>pp_status := Period_approved, pp_approved_by := Some user,
                       pp_approved_date := Some (date_of now), updated_at := now\<rparr>)
            \<and> by_pk i (payroll_periods (snd (PayrollPeriodViewSet_approve now user i s)))
              = Some (p\<lparr>pp_status := Period_approved, pp_approved_by := Some user,
                       pp_approved_date := Some (date_of now), updated_at := now\<rparr>))
       \<and> (pp_status p \<noteq> Calculated \<longrightarrow>
            PayrollPeriodViewSet_approve now user i s
              = (Inl (Bad_request ''Period must be calculated before approval''), s))"
proof -
  have "pk p = i"
    using assms by (rule by_pk_Some_pk)
  then show ?thesis
    using assms
    by (simp add: PayrollPeriodViewSet_approve_def get_object_def Let_def pre_save_def
          by_pk_write_row_at)
qed

theorem period_approve_witness:
  "by_pk 3 (payroll_periods calculated_db) = Some (sample_period\<lparr>pp_status := Calculated\<rparr>)
   \<and> by_pk 3 (payroll_periods (snd (PayrollPeriodViewSet_approve t1 9 3 calculated_db)))
       = Some (sample_period\<lparr>pp_status := Period_approved, pp_approved_by := Some 9,
                 pp_approved_date := Some (Date 2024 3 5), updated_at := t1\<rparr>)
   \<and> by_pk 3 (payroll_periods sample_db) = Some sample_period
   \<and> PayrollPeriodViewSet_approve t1 9 3 sample_db
       = (Inl (Bad_request ''Period must be calculated before approval''), sample_db)"
proof -
  have h1: "by_pk 3 (payroll_periods calculated_db)
              = Some (sample_period\<lparr>pp_status := Calculated\<rparr>)"
    by (simp add: by_pk_def calculated_db_def sample_period_def)
  have h2: "by_pk 3 (payroll_periods sample_db) = Some sample_period"
    by (simp add: by_pk_def sample_db_def sample_period_def)
  have "pp_status sample_period \<noteq> Calculated" and "date_of t1 = Date 2024 3 5"
    by (simp_all add: sample_period_def t1_def)
  then show ?thesis
    using period_approve [OF h1, of t1 9] period_approve [OF h2, of t1 9] h1 h2 by simp
qed


section \<open>Lookups that find no row\<close>

text \<open>
  C9 as stated fails in three ways. The sample database has no payroll period 99, and
  the anonymous request for it is sent to the login page by \<open>@login_required\<close>. The account
  database has no user 99; an authenticated GET for \<open>user_quick_actions_ajax\<close> that
  \<open>admin_required\<close> lets through is answered with 405 before any lookup, and
  \<open>FirstTimeSetupView\<close>, whose id comes from the session, answers the missing user with a
  redirect. None of the three responses is a 404.
\<close>

theorem lookup_not_reached:
  "by_pk 99 (payroll_periods sample_db) = None
   \<and> fst (payroll_period_detail 99 anonymous_get sample_db) = Redirect_to_login
   \<and> fst (payroll_period_detail 99 anonymous_get sample_db) \<noteq> Page_not_found
   \<and> find (\<lambda>u. user_pk u = 99) (users sample_accounts) = None
   \<and> fst (user_quick_actions_ajax (\<lambda>view. view) (\<lambda>user request s. (Render [], s)) 99
            staff_get sample_accounts)
       = Json_response 405 ''Invalid request method''
   \<and> fst (FirstTimeSetupView_dispatch (\<lambda>user request s. (Render [], s)) (Some 99)
            anonymous_get sample_accounts)
       = Redirect ''login'' (Message_error ''User not found.'')"
  by (simp add: payroll_period_detail_def user_quick_actions_ajax_def
        FirstTimeSetupView_dispatch_def login_required_def by_pk_def sample_defs)

lemma find_conj_None: "find Q xs = None \<Longrightarrow> find (\<lambda>x. P x \<and> Q x) xs = None"
  by (auto simp: find_None_iff)

text \<open>
  C9, as the code has it. The views and routes that take an id from their URL (the eight
  views of \<open>workforce/views.py\<close>, the three report views, the seven account views and
  every detail route of the REST viewsets) answer a
  request with a 404 and leave the stored state as it was, when no row has the id and the
  request has passed what the view checks before its lookup: that the user is logged in
  (by \<open>@login_required\<close> or \<open>LoginRequiredMixin\<close>; for the REST routes the permission class
  \<open>IsAuthenticated\<close>, which runs before the route), on the account views \<open>admin_required\<close>
  as well, on \<open>user_quick_actions_ajax\<close> the POST method, and on \<open>profile_single\<close> that the
  id is not the requester's own. A request without a logged-in user is sent to the login
  page by each of the HTML views, the state again unchanged.
\<close>

theorem lookup_not_found:
  "(by_pk i (employees s) = None \<longrightarrow>
      employee_detail rest_e i request s
        = (if req_user request = None then Redirect_to_login else Page_not_found, s)
      \<and> employee_edit rest_e i request s
        = (if req_user request = None then Redirect_to_login else Page_not_found, s)
      \<and> EmployeeViewSet_destroy i s = (Inl Not_found, s))
   \<and> (by_pk i (leave_applications s) = None \<longrightarrow>
        leave_application_approve now i request s
          = (if req_user request = None then Redirect_to_login else Page_not_found, s)
        \<and> leave_application_reject now i request s
          = (if req_user request = None then Redirect_to_login else Page_not_found, s)
        \<and> LeaveApplicationViewSet_submit now i s = (Inl Not_found, s)
        \<and> LeaveApplicationViewSet_approve now i s = (Inl Not_found, s)
        \<and> LeaveApplicationViewSet_reject now reason i s = (Inl Not_found, s))
   \<and> (by_pk i (payroll_periods s) = None \<longrightarrow>
        payroll_period_detail i request s
          = (if req_user request = None then Redirect_to_login else Page_not_found, s)
        \<and> download_payroll_register_excel rest_p i request s
          = (if req_user request = None then Redirect_to_login else Page_not_found, s)
        \<and> PayrollRegisterPDFView_get rest_p i request s
          = (if req_user request = None then Redirect_to_login
             else Json_response 404 ''Payroll period not found'', s)
        \<and> PayrollRegisterExcelView_get rest_p i request s
          = (if req_user request = None then Redirect_to_login
             else Json_response 404 ''Payroll period not found'', s)
        \<and> PayrollPeriodViewSet_process now i s = (Inl Not_found, s)
        \<and> PayrollPeriodViewSet_approve now approver i s = (Inl Not_found, s)
        \<and> PayrollPeriodViewSet_destroy i s = (Inl Not_found, s))
   \<and> (by_pk i (payroll_calculations s) = None \<longrightarrow>
        payroll_calculation_detail i request s
          = (if req_user request = None then Redirect_to_login else Page_not_found, s)
        \<and> download_payslip_pdf rest_c i request s
          = (if req_user request = None then Redirect_to_login else Page_not_found, s)
        \<and> PayslipPDFView_get rest_c i request s
          = (if req_user request = None then Redirect_to_login
             else Json_response 404 ''Payroll calculation not found'', s)
        \<and> PayrollCalculationViewSet_breakdown i s = (Inl Not_found, s))
   \<and> (find (\<lambda>r. key r = i) (queryset st) = None \<longrightarrow>
        detail_route queryset key action i st = (Inl Not_found, st))
   \<and> (req_user request \<noteq> None \<and> lets_through admin_required request a
        \<and> find (\<lambda>u. user_pk u = i) (users a) = None \<longrightarrow>
        (req_method request = POST \<longrightarrow>
           user_quick_actions_ajax admin_required rest_u i request a
             = (Json_response 404 ''User not found'', a))
        \<and> (req_user request \<noteq> Some i \<longrightarrow>
             profile_single admin_required rest_u i request a = (Page_not_found, a))
        \<and> edit_staff admin_required rest_u i request a = (Page_not_found, a)
        \<and> delete_staff admin_required rest_u i request a = (Page_not_found, a)
        \<and> edit_student admin_required rest_u i request a = (Page_not_found, a)
        \<and> edit_student_program admin_required rest_tu i request a = (Page_not_found, a))
   \<and> (req_user request \<noteq> None \<and> lets_through admin_required request a
        \<and> find (\<lambda>t. student_pk t = i) (students a) = None \<longrightarrow>
        delete_student admin_required rest_t i request a = (Page_not_found, a))
   \<and> (req_user request = None \<longrightarrow>
        user_quick_actions_ajax admin_required rest_u i request a = (Redirect_to_login, a)
        \<and> profile_single admin_required rest_u i request a = (Redirect_to_login, a)
        \<and> edit_staff admin_required rest_u i request a = (Redirect_to_login, a)
        \<and> delete_staff admin_required rest_u i request a = (Redirect_to_login, a)
        \<and> edit_student admin_required rest_u i request a = (Redirect_to_login, a)
        \<and> delete_student admin_required rest_t i request a = (Redirect_to_login, a)
        \<and> edit_student_program admin_required rest_tu i request a = (Redirect_to_login, a))"
proof (intro conjI impI)
  assume h: "req_user request \<noteq> None \<and> lets_through admin_required request a
        \<and> find (\<lambda>u. user_pk u = i) (users a) = None"
  then have through: "admin_required view request a = view request a" for view
    by (simp add: lets_through_def)
  from h have none: "find (\<lambda>u. user_pk u = i) (users a) = None"
    "find (\<lambda>u. is_lecturer u \<and> user_pk u = i) (users a) = None"
    "find (\<lambda>u. is_student u \<and> user_pk u = i) (users a) = None"
    by (simp_all add: find_conj_None)
  show "user_quick_actions_ajax admin_required rest_u i request a
          = (Json_response 404 ''User not found'', a)" if "req_method request = POST"
    using h that by (simp add: user_quick_actions_ajax_def login_required_def through none)
  show "profile_single admin_required rest_u i request a = (Page_not_found, a)"
    if "req_user request \<noteq> Some i"
    using h that by (simp add: profile_single_def login_required_def through none)
  show "edit_staff admin_required rest_u i request a = (Page_not_found, a)"
    using h by (simp add: edit_staff_def login_required_def through none)
  show "delete_staff admin_required rest_u i request a = (Page_not_found, a)"
    using h by (simp add: delete_staff_def login_required_def through none)
  show "edit_student admin_required rest_u i request a = (Page_not_found, a)"
    using h by (simp add: edit_student_def login_required_def through none)
  show "edit_student_program admin_required rest_tu i request a = (Page_not_found, a)"
    using h
    by (simp add: edit_student_program_def login_required_def through none
          split: option.splits)
next
  assume h: "req_user request \<noteq> None \<and> lets_through admin_required request a
        \<and> find (\<lambda>t. student_pk t = i) (students a) = None"
  then have "admin_required view request a = view request a" for view
    by (simp add: lets_through_def)
  then show "delete_student admin_required rest_t i request a = (Page_not_found, a)"
    using h by (simp add: delete_student_def login_required_def)
qed (simp_all add: employee_detail_def employee_edit_def leave_application_approve_def
      leave_application_reject_def payroll_period_detail_def payroll_calculation_detail_def
      download_payslip_pdf_def download_payroll_register_excel_def PayslipPDFView_get_def
      PayrollRegisterPDFView_get_def PayrollRegisterExcelView_get_def login_required_def
      EmployeeViewSet_destroy_def PayrollPeriodViewSet_destroy_def
      LeaveApplicationViewSet_submit_def LeaveApplicationViewSet_approve_def
      LeaveApplicationViewSet_reject_def PayrollPeriodViewSet_process_def
      PayrollPeriodViewSet_approve_def PayrollCalculationViewSet_breakdown_def
      get_object_def detail_route_def user_quick_actions_ajax_def profile_single_def
      edit_staff_def delete_staff_def edit_student_def delete_student_def
      edit_student_program_def)

theorem lookup_not_found_witness:
  "by_pk 99 (employees sample_db) = None
   \<and> by_pk 99 (leave_applications sample_db) = None
   \<and> by_pk 99 (payroll_periods sample_db) = None
   \<and> by_pk 99 (payroll_calculations sample_db) = None
   \<and> req_user staff_post \<noteq> None \<and> req_method staff_post = POST
   \<and> lets_through (\<lambda>view. view) staff_post sample_accounts
   \<and> find (\<lambda>u. user_pk u = 99) (users sample_accounts) = None
   \<and> find (\<lambda>t. student_pk t = 99) (students sample_accounts) = None
   \<and> employee_detail (\<lambda>e request s. (Render [], s)) 99 staff_post sample_db
       = (Page_not_found, sample_db)
   \<and> leave_application_approve t1 99 staff_post sample_db = (Page_not_found, sample_db)
   \<and> leave_application_reject t1 99 staff_post sample_db = (Page_not_found, sample_db)
   \<and> payroll_period_detail 99 staff_post sample_db = (Page_not_found, sample_db)
   \<and> PayrollRegisterPDFView_get (\<lambda>p request s. (Render [], s)) 99 staff_post sample_db
       = (Json_response 404 ''Payroll period not found'', sample_db)
   \<and> payroll_calculation_detail 99 staff_post sample_db = (Page_not_found, sample_db)
   \<and> detail_route payroll_periods pk (\<lambda>p s. (Inr p, s)) 99 sample_db
       = (Inl Not_found, sample_db)
   \<and> user_quick_actions_ajax (\<lambda>view. view) (\<lambda>u request s. (Render [], s)) 99 staff_post
        sample_accounts
       = (Json_response 404 ''User not found'', sample_accounts)
   \<and> edit_staff (\<lambda>view. view) (\<lambda>u request s. (Render [], s)) 99 staff_post sample_accounts
       = (Page_not_found, sample_accounts)
   \<and> delete_student (\<lambda>view. view) (\<lambda>t request s. (Render [], s)) 99 staff_post
        sample_accounts
       = (Page_not_found, sample_accounts)"
proof -
  have h: "by_pk 99 (employees sample_db) = None"
    "by_pk 99 (leave_applications sample_db) = None"
    "by_pk 99 (payroll_periods sample_db) = None"
    "by_pk 99 (payroll_calculations sample_db) = None"
    by (simp_all add: by_pk_def sample_db_def sample_period_def sample_application_def
          sample_employee_def)
  have f: "find (\<lambda>r. pk r = 99) (payroll_periods sample_db) = None"
    using h(3) by (simp add: by_pk_def)
  have r: "req_user staff_post \<noteq> None" "req_method staff_post = POST"
    "req_user staff_post \<noteq> Some 99"
    by (simp_all add: staff_post_def)
  have l: "lets_through (\<lambda>view. view) staff_post sample_accounts"
    by (simp add: lets_through_def)
  have u: "find (\<lambda>u. user_pk u = 99) (users sample_accounts) = None"
    "find (\<lambda>t. student_pk t = 99) (students sample_accounts) = None"
    by (simp_all add: sample_accounts_def)
  show ?thesis
    using lookup_not_found [where i = 99 and s = sample_db and request = staff_post
        and now = t1 and a = sample_accounts and admin_required = "\<lambda>view. view"
        and rest_e = "\<lambda>e request s. (Render [], s)"
        and rest_p = "\<lambda>p request s. (Render [], s)"
        and rest_u = "\<lambda>u request s. (Render [], s)"
        and rest_t = "\<lambda>t request s. (Render [], s)"
        and queryset = payroll_periods and key = pk and st = sample_db
        and action = "\<lambda>p s. (Inr p, s)"]
      h f r l u
    by simp
qed


section \<open>The payroll period lifecycle under process and approve\<close>

lemma perform_period_action:
  assumes "by_pk i (payroll_periods s) = Some p" and "pp_status p \<in> {Open, Processing}"
    and "period_action op"
  shows "(\<exists>p'. by_pk i (payroll_periods (perform op s)) = Some p'
            \<and> pp_status p' \<in> {Open, Processing})
       \<and> payroll_calculations (perform op s) = payroll_calculations s"
proof (cases op)
  case (Process now j)
  show ?thesis
  proof (cases "j = i")
    case True
    have "pk p = i"
      using assms(1) by (rule by_pk_Some_pk)
    then show ?thesis
      using assms(1,2) Process True
      by (auto simp: PayrollPeriodViewSet_process_def get_object_def Let_def pre_save_def
            by_pk_write_row_at)
  next
    case False
    have "pk q \<noteq> i" if "by_pk j (payroll_periods s) = Some q" for q
      using by_pk_Some_pk [OF that] False by simp
    then show ?thesis
      using assms(1,2) Process
      by (auto simp: PayrollPeriodViewSet_process_def get_object_def Let_def pre_save_def
            by_pk_write_row_other split: option.splits)
  qed
next
  case (Approve now user j)
  show ?thesis
  proof (cases "j = i")
    case True
    then show ?thesis
      using assms(1,2) Approve
      by (auto simp: PayrollPeriodViewSet_approve_def get_object_def)
  next
    case False
    have "pk q \<noteq> i" if "by_pk j (payroll_periods s) = Some q" for q
      using by_pk_Some_pk [OF that] False by simp
    then show ?thesis
      using assms(1,2) Approve
      by (auto simp: PayrollPeriodViewSet_approve_def get_object_def Let_def pre_save_def
            by_pk_write_row_other split: option.splits)
  qed
qed (use assms(3) in simp_all)

lemma run_period_actions:
  assumes "list_all period_action ops"
    and "by_pk i (payroll_periods s) = Some p" and "pp_status p \<in> {Open, Processing}"
  shows "(\<exists>p'. by_pk i (payroll_periods (run ops s)) = Some p'
            \<and> pp_status p' \<in> {Open, Processing})
       \<and> payroll_calculations (run ops s) = payroll_calculations s"
  using assms
proof (induction ops arbitrary: s p)
  case Nil
  then show ?case
    by (simp add: run_def)
next
  case (Cons op ops)
  from Cons.prems have op: "period_action op" and ops: "list_all period_action ops"
    by simp_all
  from perform_period_action [OF Cons.prems(2,3) op]
  obtain p' where p': "by_pk i (payroll_periods (perform op s)) = Some p'"
      "pp_status p' \<in> {Open, Processing}"
    and c: "payroll_calculations (perform op s) = payroll_calculations s"
    by blast
  from Cons.IH [OF ops p'] c show ?case
    by (simp add: run_def)
qed

text \<open>
  C5. From an open payroll period, whatever sequence of \<open>process\<close> and \<open>approve\<close> actions
  is invoked, on this period or on others, the period is still there with status open or
  processing, hence never calculated, approved, paid or closed, and the table of
  calculations is unchanged: \<open>process\<close> creates none. \<open>process\<close> on the open period stores
  it as processing, and \<open>approve\<close> on it is refused, leaving the database as it was.
\<close>

theorem open_period_never_calculated:
  assumes "by_pk i (payroll_periods s) = Some p" and "pp_status p = Open"
    and "list_all period_action ops"
  shows "(\<exists>p'. by_pk i (payroll_periods (run ops s)) = Some p'
            \<and> pp_status p' \<in> {Open, Processing}
            \<and> pp_status p' \<notin> {Calculated, Period_approved, Paid, Closed})
       \<and> payroll_calculations (run ops s) = payroll_calculations s
       \<and> by_pk i (payroll_periods (snd (PayrollPeriodViewSet_process now i s)))
           = Some (p\<lparr>pp_status := Processing, pp_processing_started_at := Some now,
                     updated_at := now\<rparr>)
       \<and> PayrollPeriodViewSet_approve now user i s
           = (Inl (Bad_request ''Period must be calculated before approval''), s)"
proof -
  have "pp_status p \<in> {Open, Processing}"
    using assms(2) by simp
  from run_period_actions [OF assms(3) assms(1) this]
  have a: "(\<exists>p'. by_pk i (payroll_periods (run ops s)) = Some p'
            \<and> pp_status p' \<in> {Open, Processing}
            \<and> pp_status p' \<notin> {Calculated, Period_approved, Paid, Closed})
       \<and> payroll_calculations (run ops s) = payroll_calculations s"
    by auto
  have "pk p = i"
    using assms(1) by (rule by_pk_Some_pk)
  then have b: "by_pk i (payroll_periods (snd (PayrollPeriodViewSet_process now i s)))
           = Some (p\<lparr>pp_status := Processing, pp_processing_started_at := Some now,
                     updated_at := now\<rparr>)"
    using assms(1,2)
    by (simp add: PayrollPeriodViewSet_process_def get_object_def Let_def pre_save_def
          by_pk_write_row_at)
  have c: "PayrollPeriodViewSet_approve now user i s
           = (Inl (Bad_request ''Period must be calculated before approval''), s)"
    using assms(1,2) by (simp add: PayrollPeriodViewSet_approve_def get_object_def)
  from a b c show ?thesis
    by blast
qed

theorem open_period_never_calculated_witness:
  "by_pk 3 (payroll_periods sample_db) = Some sample_period
   \<and> pp_status sample_period = Open
   \<and> list_all period_action [Process t0 3, Approve t1 9 3, Process t1 3, Approve t1 9 3]
   \<and> map pp_status (payroll_periods
        (run [Process t0 3, Approve t1 9 3, Process t1 3, Approve t1 9 3] sample_db))
       = [Processing]
   \<and> payroll_calculations
        (run [Process t0 3, Approve t1 9 3, Process t1 3, Approve t1 9 3] sample_db) = []
   \<and> PayrollPeriodViewSet_approve t1 9 3 sample_db
       = (Inl (Bad_request ''Period must be calculated before approval''), sample_db)"
proof -
  have h1: "by_pk 3 (payroll_periods sample_db) = Some sample_period"
    by (simp add: by_pk_def sample_db_def sample_period_def)
  have h2: "pp_status sample_period = Open"
    by (simp add: sample_period_def)
  have h3: "list_all period_action [Process t0 3, Approve t1 9 3, Process t1 3, Approve t1 9 3]"
    by simp
  have e: "map pp_status (payroll_periods
        (run [Process t0 3, Approve t1 9 3, Process t1 3, Approve t1 9 3] sample_db))
       = [Processing]"
    by (simp add: run_def PayrollPeriodViewSet_process_def PayrollPeriodViewSet_approve_def
          get_object_def by_pk_def sample_db_def sample_period_def pre_save_def Let_def)
  have "payroll_calculations sample_db = []"
    by (simp add: sample_db_def)
  then show ?thesis
    using open_period_never_calculated [OF h1 h2 h3, of t1 9] h1 h2 h3 e by simp
qed


section \<open>Tables the handlers do not write\<close>

lemma perform_keeps_payroll:
  assumes "\<not> admin_form op" and "\<not> deletion op"
  shows "payroll_calculations (perform op s) = payroll_calculations s
       \<and> payroll_calculation_details (perform op s) = payroll_calculation_details s"
proof (cases op)
  case (Submit now i)
  then show ?thesis
    by (simp add: LeaveApplicationViewSet_submit_def submit_checked_def Let_def
          split: sum.splits option.splits)
next
  case (Leave_approve now i)
  then show ?thesis
    by (simp add: LeaveApplicationViewSet_approve_def Let_def split: sum.splits)
next
  case (Leave_reject now reason i)
  then show ?thesis
    by (simp add: LeaveApplicationViewSet_reject_def Let_def split: sum.splits option.splits)
next
  case (Accrue_monthly now)
  then show ?thesis
    by (simp add: accrue_monthly_def Let_def split: prod.splits sum.splits)
next
  case (Process now i)
  then show ?thesis
    by (simp add: PayrollPeriodViewSet_process_def Let_def split: sum.splits)
next
  case (Approve now user i)
  then show ?thesis
    by (simp add: PayrollPeriodViewSet_approve_def Let_def split: sum.splits)
next
  case (Breakdown i)
  then show ?thesis
    by (simp add: PayrollCalculationViewSet_breakdown_def Let_def
          split: sum.splits option.splits)
next
  case (View_approve now i request)
  then show ?thesis
    by (simp add: leave_application_approve_def login_required_def Let_def
          split: option.splits sum.splits)
next
  case (View_reject now i request)
  then show ?thesis
    by (simp add: leave_application_reject_def login_required_def Let_def
          split: option.splits)
next
  case (View_period i request)
  then show ?thesis
    by (simp add: payroll_period_detail_def login_required_def split: option.splits)
next
  case (View_calculation i request)
  then show ?thesis
    by (simp add: payroll_calculation_detail_def login_required_def split: option.splits)
qed (use assms in simp_all)

section \<open>One calculation per employee and period\<close>

lemma fold_max_ge: "(a::nat) \<le> fold max xs a \<and> (\<forall>x\<in>set xs. x \<le> fold max xs a)"
proof (induction xs arbitrary: a)
  case Nil
  then show ?case
    by simp
next
  case (Cons y ys)
  have "max y a \<le> fold max ys (max y a)"
    using Cons.IH by blast
  then show ?case
    using Cons.IH [of "max y a"] by auto
qed

lemma next_pk_fresh: "r \<in> set rows \<Longrightarrow> pk r < next_pk rows"
  using fold_max_ge [of 0 "map pk rows"] by (auto simp: next_pk_def less_Suc_eq_le)

lemma set_write_row: "set (write_row r rows) \<subseteq> insert r (set rows)"
  by (induction rows) auto

lemma write_row_distinct:
  assumes "distinct (map pk rows)" and "distinct (map k rows)"
    and "\<forall>x\<in>set rows. pk x \<noteq> pk r \<longrightarrow> k x \<noteq> k r"
  shows "distinct (map k (write_row r rows))"
  using assms
proof (induction rows)
  case Nil
  then show ?case
    by simp
next
  case (Cons x xs)
  show ?case
  proof (cases "pk x = pk r")
    case True
    have "k y \<noteq> k r" if "y \<in> set xs" for y
    proof -
      have "pk y \<in> pk ` set xs"
        using that by simp
      then have "pk y \<noteq> pk x"
        using Cons.prems(1) by auto
      then show ?thesis
        using True Cons.prems(3) that by simp
    qed
    then have "k r \<notin> k ` set xs"
      by (metis imageE)
    then show ?thesis
      using True Cons.prems by simp
  next
    case False
    then have "k x \<noteq> k r"
      using Cons.prems by simp
    moreover have "k x \<notin> k ` set xs"
      using Cons.prems by simp
    ultimately have "k x \<notin> k ` set (write_row r xs)"
      using set_write_row [of r xs] by auto
    then show ?thesis
      using False Cons by simp
  qed
qed

lemma validate_unique_iff:
  "validate_unique obj rows =
     (\<forall>r\<in>set rows. pk r \<noteq> pk obj \<longrightarrow> calculation_key r \<noteq> calculation_key obj)"
  by (auto simp: validate_unique_def find_None_iff calculation_key_def)

lemma admin_add_wf:
  assumes "calculations_wf (payroll_calculations s)"
  shows "calculations_wf (payroll_calculations (snd (PayrollCalculationAdmin_add now form s)))"
proof -
  let ?rows = "payroll_calculations s"
  let ?obj = "form\<lparr>pk := next_pk ?rows, created_at := now, updated_at := now,
      created_by := None, updated_by := None, pc_calculated_at := now,
      pc_calculated_by := None, pc_approved_at := None, pc_approved_by := None\<rparr>"
  have "pk r \<noteq> next_pk ?rows" if "r \<in> set ?rows" for r
    using next_pk_fresh [OF that] by simp
  then have fresh: "\<forall>r\<in>set ?rows. pk r \<noteq> pk ?obj"
    by simp
  have "calculations_wf (?rows @ [?obj])" if "validate_unique ?obj ?rows"
  proof -
    have "\<forall>r\<in>set ?rows. calculation_key r \<noteq> calculation_key ?obj"
      using that fresh unfolding validate_unique_iff by blast
    then have "calculation_key ?obj \<notin> calculation_key ` set ?rows"
      by force
    moreover have "pk ?obj \<notin> pk ` set ?rows"
      using fresh by force
    ultimately show ?thesis
      using assms by (simp add: calculations_wf_def)
  qed
  then show ?thesis
    using assms by (simp add: PayrollCalculationAdmin_add_def Let_def form_valid_def)
qed

lemma admin_change_wf:
  assumes "calculations_wf (payroll_calculations s)"
  shows "calculations_wf (payroll_calculations (snd (PayrollCalculationAdmin_change now i form s)))"
proof (cases "by_pk i (payroll_calculations s)")
  case None
  then show ?thesis
    using assms by (simp add: PayrollCalculationAdmin_change_def)
next
  case (Some old)
  let ?rows = "payroll_calculations s"
  let ?obj = "form\<lparr>pk := i, created_at := created_at old, updated_at := now,
      created_by := created_by old, updated_by := updated_by old,
      pc_calculated_at := pc_calculated_at old, pc_calculated_by := pc_calculated_by old,
      pc_approved_at := pc_approved_at old, pc_approved_by := pc_approved_by old\<rparr>"
  have d: "distinct (map pk ?rows)" "distinct (map calculation_key ?rows)"
    using assms by (simp_all add: calculations_wf_def)
  have 1: "distinct (map pk (write_row ?obj ?rows))"
    by (rule write_row_distinct [OF d(1) d(1)]) simp
  have 2: "distinct (map calculation_key (write_row ?obj ?rows))"
    if "validate_unique ?obj ?rows"
    using that by (intro write_row_distinct [OF d]) (simp add: validate_unique_iff)
  show ?thesis
    using Some assms 1 2
    by (simp add: PayrollCalculationAdmin_change_def Let_def form_valid_def calculations_wf_def)
qed

lemma admin_delete_wf:
  assumes "calculations_wf (payroll_calculations s)"
  shows "calculations_wf (payroll_calculations (snd (PayrollCalculationAdmin_delete i s)))"
  using assms
  by (simp add: PayrollCalculationAdmin_delete_def calculations_wf_def distinct_map_filter
        split: option.splits)

lemma destroy_wf:
  assumes "calculations_wf (payroll_calculations s)"
  shows "calculations_wf (payroll_calculations (snd (PayrollPeriodViewSet_destroy i s)))"
    and "calculations_wf (payroll_calculations (snd (EmployeeViewSet_destroy i s)))"
  using assms
  by (simp_all add: PayrollPeriodViewSet_destroy_def EmployeeViewSet_destroy_def Let_def
        calculations_wf_def distinct_map_filter split: sum.splits)

lemma perform_wf:
  assumes "calculations_wf (payroll_calculations s)"
  shows "calculations_wf (payroll_calculations (perform op s))"
proof (cases "admin_form op \<or> deletion op")
  case True
  then show ?thesis
    using assms admin_add_wf admin_change_wf admin_delete_wf destroy_wf
    by (cases op) simp_all
next
  case False
  then show ?thesis
    using assms perform_keeps_payroll by simp
qed

lemma run_wf:
  "calculations_wf (payroll_calculations s) \<Longrightarrow> calculations_wf (payroll_calculations (run ops s))"
  unfolding run_def by (induction ops arbitrary: s) (simp_all add: perform_wf)

text \<open>
  C7. Only the admin site adds a calculation or changes its fields, and
  \<open>unique_together = ['employee', 'payroll_period']\<close> makes it refuse a form whose
  pair another row has. So from a table in which primary keys and (employee, period)
  pairs are distinct, in particular from the empty table, every sequence of operations
  leads to such a table again: no two calculations share employee and period. Adding a
  calculation for a pair that has a row is refused and changes nothing.
\<close>

theorem one_calculation_per_pair:
  assumes "calculations_wf (payroll_calculations s)"
  shows "distinct (map calculation_key (payroll_calculations (run ops s)))
       \<and> distinct (map pk (payroll_calculations (run ops s)))
       \<and> ((pc_employee form, pc_payroll_period form)
              \<in> set (map calculation_key (payroll_calculations (run ops s))) \<longrightarrow>
            PayrollCalculationAdmin_add now form (run ops s) = (False, run ops s))"
proof -
  let ?s = "run ops s"
  have wf: "calculations_wf (payroll_calculations ?s)"
    using assms by (rule run_wf)
  have "PayrollCalculationAdmin_add now form ?s = (False, ?s)"
    if "(pc_employee form, pc_payroll_period form)
          \<in> set (map calculation_key (payroll_calculations ?s))"
  proof -
    from that obtain r where r: "r \<in> set (payroll_calculations ?s)"
      "calculation_key r = (pc_employee form, pc_payroll_period form)"
      by auto
    have "pk r \<noteq> next_pk (payroll_calculations ?s)"
      using next_pk_fresh [OF r(1)] by simp
    with r show ?thesis
      by (auto simp: PayrollCalculationAdmin_add_def Let_def form_valid_def
            validate_unique_iff calculation_key_def)
  qed
  with wf show ?thesis
    by (simp add: calculations_wf_def)
qed

theorem one_calculation_per_pair_witness:
  "calculations_wf (payroll_calculations sample_db)
   \<and> map calculation_key (payroll_calculations
        (run [Admin_add t1 sample_form, Admin_add t1 sample_form] sample_db)) = [(4, 3)]
   \<and> distinct (map calculation_key (payroll_calculations
        (run [Admin_add t1 sample_form, Admin_add t1 sample_form] sample_db)))
   \<and> PayrollCalculationAdmin_add t1 sample_form (run [Admin_add t1 sample_form] sample_db)
       = (False, run [Admin_add t1 sample_form] sample_db)"
proof -
  have h: "calculations_wf (payroll_calculations sample_db)"
    by (simp add: calculations_wf_def sample_db_def)
  have one: "payroll_calculations (run [Admin_add t1 sample_form] sample_db)
      = [sample_form\<lparr>pk := 1, created_at := t1, updated_at := t1, pc_calculated_at := t1\<rparr>]"
    by (simp add: run_def PayrollCalculationAdmin_add_def form_valid_def validate_unique_def
          by_pk_def next_pk_def sample_db_def sample_form_def sample_employee_def
          sample_period_def Let_def)
  have e: "map calculation_key (payroll_calculations
        (run [Admin_add t1 sample_form, Admin_add t1 sample_form] sample_db)) = [(4, 3)]"
    by (simp add: run_def PayrollCalculationAdmin_add_def form_valid_def validate_unique_def
          by_pk_def next_pk_def sample_db_def sample_form_def sample_employee_def
          sample_period_def calculation_key_def Let_def)
  have k: "(pc_employee sample_form, pc_payroll_period sample_form)
      \<in> set (map calculation_key (payroll_calculations (run [Admin_add t1 sample_form] sample_db)))"
    by (subst one) (simp add: calculation_key_def sample_form_def)
  show ?thesis
    using one_calculation_per_pair [OF h,
        where ops = "[Admin_add t1 sample_form, Admin_add t1 sample_form]"]
      one_calculation_per_pair [OF h,
        where ops = "[Admin_add t1 sample_form]" and form = sample_form and now = t1]
      h e k
    by simp
qed


section \<open>Detail lines and aggregate fields\<close>

text \<open>
  C8 as stated fails. A calculation added through the admin site with 1000.00 of total
  earnings has no detail line, so its earning lines sum to 0: the totals do not agree.
\<close>

theorem admin_add_breaks_totals:
  "payroll_calculations (run [Admin_add t1 sample_form] sample_db)
     = [sample_form\<lparr>pk := 1, created_at := t1, updated_at := t1, pc_calculated_at := t1\<rparr>]
   \<and> line_total Earning
        (sample_form\<lparr>pk := 1, created_at := t1, updated_at := t1, pc_calculated_at := t1\<rparr>)
        (run [Admin_add t1 sample_form] sample_db) = 0
   \<and> pc_total_earnings
        (sample_form\<lparr>pk := 1, created_at := t1, updated_at := t1, pc_calculated_at := t1\<rparr>)
       = 100000
   \<and> \<not> totals_agree
        (sample_form\<lparr>pk := 1, created_at := t1, updated_at := t1, pc_calculated_at := t1\<rparr>)
        (run [Admin_add t1 sample_form] sample_db)"
  by (simp add: run_def PayrollCalculationAdmin_add_def form_valid_def validate_unique_def
        by_pk_def next_pk_def sample_db_def sample_form_def sample_employee_def
        sample_period_def totals_agree_def line_total_def details_of_def Let_def)

lemma key_inj:
  "distinct (map f xs) \<Longrightarrow> x \<in> set xs \<Longrightarrow> y \<in> set xs \<Longrightarrow> f x = f y \<Longrightarrow> x = y"
  by (simp add: distinct_map inj_on_def)

text \<open>A cascade takes the lines of the calculations it deletes, and no other line.\<close>

lemma cascade_keeps_lines:
  assumes "distinct (map pk calcs)" and "c \<in> set calcs" and "\<not> P c"
  shows "filter (\<lambda>d. pcd_payroll_calculation d = pk c)
           (filter (\<lambda>d. pcd_payroll_calculation d \<notin> set (map pk (filter P calcs))) ds)
         = filter (\<lambda>d. pcd_payroll_calculation d = pk c) ds"
proof -
  have "pk c \<notin> set (map pk (filter P calcs))"
  proof
    assume "pk c \<in> set (map pk (filter P calcs))"
    then obtain x where x: "x \<in> set calcs" "P x" "pk x = pk c"
      by auto
    then have "x = c"
      using key_inj [OF assms(1) x(1) assms(2)] by simp
    then show False
      using x(2) assms(3) by simp
  qed
  then show ?thesis
    by (simp add: filter_filter cong: filter_cong) (metis (mono_tags, lifting) filter_cong)
qed

lemma filter_owner_other:
  "j \<noteq> i \<Longrightarrow>
     filter (\<lambda>d. pcd_payroll_calculation d \<noteq> i \<and> pcd_payroll_calculation d = j) ds
     = filter (\<lambda>d. pcd_payroll_calculation d = j) ds"
  by (induction ds) auto

lemma perform_keeps_lines:
  assumes "calculations_wf (payroll_calculations s)" and "\<not> admin_form op"
  shows "\<forall>c\<in>set (payroll_calculations (perform op s)).
           c \<in> set (payroll_calculations s)
           \<and> details_of c (perform op s) = details_of c s"
proof (cases "deletion op")
  case False
  then show ?thesis
    using perform_keeps_payroll [OF assms(2) False, of s] by (simp add: details_of_def)
next
  case True
  have d: "distinct (map pk (payroll_calculations s))"
    using assms(1) by (simp add: calculations_wf_def)
  from True show ?thesis
  proof (cases op)
    case (Delete_period i)
    show ?thesis
    proof (cases "by_pk i (payroll_periods s)")
      case None
      then show ?thesis
        using Delete_period by (simp add: PayrollPeriodViewSet_destroy_def get_object_def)
    next
      case (Some p)
      then show ?thesis
        using Delete_period
          cascade_keeps_lines [OF d, of _ "\<lambda>c. pc_payroll_period c = i"
            "payroll_calculation_details s"]
        by (simp add: PayrollPeriodViewSet_destroy_def get_object_def Let_def details_of_def)
    qed
  next
    case (Delete_employee i)
    show ?thesis
    proof (cases "by_pk i (employees s)")
      case None
      then show ?thesis
        using Delete_employee by (simp add: EmployeeViewSet_destroy_def get_object_def)
    next
      case (Some e)
      then show ?thesis
        using Delete_employee
          cascade_keeps_lines [OF d, of _ "\<lambda>c. pc_employee c = i"
            "payroll_calculation_details s"]
        by (simp add: EmployeeViewSet_destroy_def get_object_def Let_def details_of_def)
    qed
  next
    case (Admin_delete i)
    then show ?thesis
      by (auto simp: PayrollCalculationAdmin_delete_def details_of_def filter_owner_other
            split: option.splits)
  qed simp_all
qed

lemma run_keeps_lines:
  assumes "calculations_wf (payroll_calculations s)"
    and "list_all (\<lambda>op. \<not> admin_form op) ops"
  shows "\<forall>c\<in>set (payroll_calculations (run ops s)).
           c \<in> set (payroll_calculations s) \<and> details_of c (run ops s) = details_of c s"
  using assms
proof (induction ops arbitrary: s)
  case Nil
  then show ?case
    by (simp add: run_def)
next
  case (Cons op ops)
  from Cons.prems have op: "\<not> admin_form op" and ops: "list_all (\<lambda>op. \<not> admin_form op) ops"
    by simp_all
  have wf: "calculations_wf (payroll_calculations (perform op s))"
    using Cons.prems(1) by (rule perform_wf)
  have r: "run (op # ops) s = run ops (perform op s)"
    by (simp add: run_def)
  show ?case
  proof
    fix c
    assume "c \<in> set (payroll_calculations (run (op # ops) s))"
    then have c: "c \<in> set (payroll_calculations (run ops (perform op s)))"
      by (simp add: r)
    with Cons.IH [OF wf ops] have 1: "c \<in> set (payroll_calculations (perform op s))"
      and 2: "details_of c (run ops (perform op s)) = details_of c (perform op s)"
      by blast+
    from perform_keeps_lines [OF Cons.prems(1) op] 1
    have "c \<in> set (payroll_calculations s)"
      and "details_of c (perform op s) = details_of c s"
      by blast+
    then show "c \<in> set (payroll_calculations s)
        \<and> details_of c (run (op # ops) s) = details_of c s"
      using 2 by (simp add: r)
  qed
qed

text \<open>
  C8, as the code has it. No handler computes or compares the two: a calculation's
  aggregate fields and its detail lines are stored independently, and only the add and
  change forms of the admin site set the aggregate fields. Across any sequence of the
  other operations (the REST actions and HTML views, and the deletions of a payroll
  period, an employee or a calculation with their cascades) a calculation that is still
  stored is a row that was stored before, with the same detail lines, so its totals agree
  with its lines afterwards exactly if they did before.
\<close>

theorem totals_kept:
  assumes "calculations_wf (payroll_calculations s)"
    and "list_all (\<lambda>op. \<not> admin_form op) ops"
  shows "\<forall>c\<in>set (payroll_calculations (run ops s)).
           c \<in> set (payroll_calculations s)
           \<and> details_of c (run ops s) = details_of c s
           \<and> line_total Earning c (run ops s) = line_total Earning c s
           \<and> line_total Deduction c (run ops s) = line_total Deduction c s
           \<and> totals_agree c (run ops s) = totals_agree c s"
  using run_keeps_lines [OF assms] by (simp add: totals_agree_def line_total_def)

theorem totals_kept_witness:
  "calculations_wf (payroll_calculations two_slips_db)
   \<and> list_all (\<lambda>op. \<not> admin_form op) [Process t1 3, Breakdown 1, Delete_employee 5]
   \<and> payroll_calculations (run [Process t1 3, Breakdown 1, Delete_employee 5] two_slips_db)
       = [sample_calculation]
   \<and> details_of sample_calculation
        (run [Process t1 3, Breakdown 1, Delete_employee 5] two_slips_db) = [sample_line]
   \<and> totals_agree sample_calculation two_slips_db
   \<and> totals_agree sample_calculation
        (run [Process t1 3, Breakdown 1, Delete_employee 5] two_slips_db)"
proof -
  let ?ops = "[Process t1 3, Breakdown 1, Delete_employee 5]"
  have h1: "calculations_wf (payroll_calculations two_slips_db)"
    by (simp add: calculations_wf_def calculation_key_def two_slips_db_def payslip_db_def
          sample_calculation_def sample_form_def)
  have h2: "list_all (\<lambda>op. \<not> admin_form op) ?ops"
    by simp
  have e: "payroll_calculations (run ?ops two_slips_db) = [sample_calculation]"
    by (simp add: run_def PayrollPeriodViewSet_process_def
          PayrollCalculationViewSet_breakdown_def EmployeeViewSet_destroy_def get_object_def
          by_pk_def two_slips_db_def payslip_db_def sample_db_def sample_period_def
          sample_employee_def sample_calculation_def sample_form_def sample_department_def
          pre_save_def Let_def)
  have a: "totals_agree sample_calculation two_slips_db"
    by (simp add: totals_agree_def line_total_def details_of_def two_slips_db_def
          payslip_db_def sample_db_def sample_calculation_def sample_form_def sample_line_def)
  have l: "details_of sample_calculation two_slips_db = [sample_line]"
    by (simp add: details_of_def two_slips_db_def payslip_db_def sample_db_def
          sample_calculation_def sample_form_def sample_line_def)
  show ?thesis
    using totals_kept [OF h1 h2] h1 h2 e a l by simp
qed


section \<open>Recomputing the closing balance\<close>

text \<open>
  C3 as stated fails. The sample balance has 2 encashed days. After
  \<open>leave_application_approve\<close> of the 3 submitted days its closing balance is 7, and after
  \<open>accrue_monthly\<close> it is 11.75: opening + accrued + carried forward - taken in both
  cases, with the encashed days not subtracted.
\<close>

theorem recomputed_closing_ignores_encashed:
  "leave_balances (snd (leave_application_approve t1 1 staff_post submitted_db))
     = [sample_balance\<lparr>lb_taken_days := 300, lb_pending_days := 0,
          lb_closing_balance := 700, updated_at := t1\<rparr>]
   \<and> \<not> closing_expected (sample_balance\<lparr>lb_taken_days := 300, lb_pending_days := 0,
          lb_closing_balance := 700, updated_at := t1\<rparr>)
   \<and> leave_balances (snd (accrue_monthly t1 sample_db))
     = [sample_balance\<lparr>lb_accrued_days := 1175, lb_closing_balance := 1175,
          lb_last_accrual_date := Some (Date 2024 3 5), updated_at := t1\<rparr>]
   \<and> \<not> closing_expected (sample_balance\<lparr>lb_accrued_days := 1175,
          lb_closing_balance := 1175, lb_last_accrual_date := Some (Date 2024 3 5),
          updated_at := t1\<rparr>)"
  by (simp add: leave_application_approve_def login_required_def accrue_monthly_def
        accrue_def get_or_create_def by_pk_def balance_of_def balance_row_def
        save_balance_def balance_fits_def fits_def save_def pre_save_def
        closing_expected_def sample_defs Let_def)

text \<open>
  With 9999.00 days accrued, the next accrual of 1.75 does not fit the column: the save
  raises, the action ends with the error and the balance is as it was.
\<close>

lemma accrue_monthly_raises:
  "accrue_monthly t1 full_db = (Inl Invalid_operation, full_db)"
  by (simp add: accrue_monthly_def accrue_def get_or_create_def save_balance_def
        balance_fits_def fits_def sample_defs Let_def)

subsection \<open>One pass of the accrual loop\<close>

lemma filter_key_short:
  "distinct (map f xs) \<Longrightarrow> length (filter (\<lambda>x. f x = k) xs) \<le> 1"
proof (induction xs)
  case Nil
  then show ?case
    by simp
next
  case (Cons x xs)
  show ?case
  proof (cases "f x = k")
    case True
    then have "k \<notin> f ` set xs"
      using Cons.prems by auto
    then have "filter (\<lambda>x. f x = k) xs = []"
      by (auto simp: filter_empty_conv)
    then show ?thesis
      using True by simp
  next
    case False
    then show ?thesis
      using Cons by simp
  qed
qed

lemma set_write_row_eq:
  assumes "distinct (map pk rows)" and "b \<in> set rows" and "pk r = pk b"
  shows "set (write_row r rows) = insert r (set rows - {b})"
  using assms
proof (induction rows)
  case Nil
  then show ?case
    by simp
next
  case (Cons x xs)
  show ?case
  proof (cases "pk x = pk r")
    case True
    have "x = b"
      using key_inj [OF Cons.prems(1), of x b] Cons.prems(2,3) True by simp
    moreover have "b \<notin> set xs"
      using Cons.prems(1) \<open>x = b\<close> by auto
    ultimately show ?thesis
      using True by auto
  next
    case False
    then have "x \<noteq> b" and "b \<in> set xs"
      using Cons.prems by auto
    moreover have "x \<noteq> r"
      using False by auto
    ultimately show ?thesis
      using False Cons by auto
  qed
qed

lemma balance_key_eq:
  "(balance_key b = (e, t, y)) = (lb_employee b = e \<and> lb_leave_type b = t \<and> lb_year b = y)"
  by (simp add: balance_key_def)

text \<open>With distinct keys, \<open>get_or_create\<close> returns: the one row with the key, or a new row.\<close>

lemma get_or_create_wf:
  assumes "balances_wf rows"
  shows "\<exists>b rows1. get_or_create now e t y rows = Inr (b, rows1)
           \<and> balances_wf rows1 \<and> b \<in> set rows1 \<and> balance_key b = (e, t, y)
           \<and> set rows1 = insert b (set rows)
           \<and> (b \<in> set rows \<or> closing_recomputed b)"
proof -
  let ?P = "\<lambda>b. lb_employee b = e \<and> lb_leave_type b = t \<and> lb_year b = y"
  have P: "?P = (\<lambda>b. balance_key b = (e, t, y))"
    by (simp add: balance_key_eq)
  have short: "length (filter ?P rows) \<le> 1"
    unfolding P using assms by (intro filter_key_short) (simp add: balances_wf_def)
  show ?thesis
  proof (cases "filter ?P rows")
    case Nil
    let ?b = "new_balance now (next_pk rows) e t y"
    have none: "\<forall>r\<in>set rows. balance_key r \<noteq> (e, t, y)"
      using Nil by (auto simp: filter_empty_conv balance_key_eq)
    have "\<forall>r\<in>set rows. pk r < next_pk rows"
      by (simp add: next_pk_fresh)
    moreover have "pk ?b = next_pk rows"
      by (simp add: new_balance_def)
    ultimately have "pk ?b \<notin> pk ` set rows"
      by force
    moreover have kb: "balance_key ?b = (e, t, y)"
      by (simp add: balance_key_def new_balance_def)
    moreover have "balance_key ?b \<notin> balance_key ` set rows"
      using none kb by (metis imageE)
    ultimately have "balances_wf (rows @ [?b])"
      using assms by (simp add: balances_wf_def)
    moreover have "closing_recomputed ?b"
      by (simp add: closing_recomputed_def new_balance_def)
    ultimately show ?thesis
      using Nil kb by (simp add: get_or_create_def Let_def)
  next
    case (Cons b bs)
    then have "bs = []"
      using short by simp
    moreover have "b \<in> set (filter ?P rows)"
      using Cons by simp
    then have "b \<in> set rows" and "balance_key b = (e, t, y)"
      by (simp_all add: balance_key_eq)
    ultimately show ?thesis
      using Cons assms by (auto simp: get_or_create_def)
  qed
qed

text \<open>
  One pass either writes a row for its key whose closing balance is recomputed, keeping
  every other row and the distinctness of primary keys and keys, or it raises and leaves
  the rows it found, with at most a new row of zeros added.
\<close>

lemma accrue_step:
  assumes "balances_wf rows"
  shows "(\<exists>r rows'. accrue now e t rows = Inr rows'
           \<and> balances_wf rows' \<and> r \<in> set rows'
           \<and> balance_key r = (pk e, pk t, year (date_of now)) \<and> closing_recomputed r
           \<and> (\<forall>x\<in>set rows'. x \<noteq> r \<longrightarrow> x \<in> set rows \<and> balance_key x \<noteq> balance_key r)
           \<and> (\<forall>x\<in>set rows. balance_key x \<noteq> balance_key r \<longrightarrow> x \<in> set rows'))
       \<or> (\<exists>err rows1. accrue now e t rows = Inl (err, rows1)
           \<and> (\<forall>x\<in>set rows1. x \<in> set rows \<or> closing_recomputed x))"
proof -
  let ?k = "(pk e, pk t, year (date_of now))"
  from get_or_create_wf [OF assms, of now "pk e" "pk t" "year (date_of now)"]
  obtain b rows1 where g: "get_or_create now (pk e) (pk t) (year (date_of now)) rows = Inr (b, rows1)"
    and wf1: "balances_wf rows1" and b: "b \<in> set rows1" and kb: "balance_key b = ?k"
    and s1: "set rows1 = insert b (set rows)"
    and bnew: "b \<in> set rows \<or> closing_recomputed b"
    by blast
  let ?b3 = "b\<lparr>lb_accrued_days := lb_accrued_days b + lt_accrual_rate t,
      lb_closing_balance := lb_opening_balance b + (lb_accrued_days b + lt_accrual_rate t)
        + lb_carried_forward_days b - lb_taken_days b,
      lb_last_accrual_date := Some (date_of now)\<rparr>"
  let ?r = "?b3\<lparr>updated_at := now\<rparr>"
  let ?rows' = "write_row ?r rows1"
  show ?thesis
  proof (cases "balance_fits ?b3")
    case False
    then have "accrue now e t rows = Inl (Invalid_operation, rows1)"
      by (simp add: accrue_def g Let_def save_balance_def)
    moreover have "\<forall>x\<in>set rows1. x \<in> set rows \<or> closing_recomputed x"
      using s1 bnew by auto
    ultimately show ?thesis
      by blast
  next
    case True
    then have a: "accrue now e t rows = Inr ?rows'"
      by (simp add: accrue_def g Let_def save_balance_def save_def pre_save_def)
    have pkr: "pk ?r = pk b" and kr: "balance_key ?r = ?k"
      using kb by (simp_all add: balance_key_def)
    have d: "distinct (map pk rows1)" "distinct (map balance_key rows1)"
      using wf1 by (simp_all add: balances_wf_def)
    have set': "set ?rows' = insert ?r (set rows1 - {b})"
      using d(1) b pkr by (rule set_write_row_eq)
    have other: "balance_key x \<noteq> ?k" if "x \<in> set rows1" and "x \<noteq> b" for x
      using key_inj [OF d(2) that(1) b] that(2) kb by auto
    have "distinct (map pk ?rows')"
      by (rule write_row_distinct [OF d(1) d(1)]) simp
    moreover have "distinct (map balance_key ?rows')"
    proof (rule write_row_distinct [OF d])
      show "\<forall>x\<in>set rows1. pk x \<noteq> pk ?r \<longrightarrow> balance_key x \<noteq> balance_key ?r"
        using other pkr kr by metis
    qed
    ultimately have wf': "balances_wf ?rows'"
      by (simp add: balances_wf_def)
    have r_in: "?r \<in> set ?rows'"
      using set' by simp
    have cl: "closing_recomputed ?r"
      by (simp add: closing_recomputed_def)
    have old: "\<forall>x\<in>set ?rows'. x \<noteq> ?r \<longrightarrow> x \<in> set rows \<and> balance_key x \<noteq> balance_key ?r"
    proof (intro ballI impI)
      fix x
      assume "x \<in> set ?rows'" and "x \<noteq> ?r"
      then have "x \<in> set rows1" and "x \<noteq> b"
        using set' by auto
      then show "x \<in> set rows \<and> balance_key x \<noteq> balance_key ?r"
        using other [of x] s1 kr by auto
    qed
    have keep: "\<forall>x\<in>set rows. balance_key x \<noteq> balance_key ?r \<longrightarrow> x \<in> set ?rows'"
    proof (intro ballI impI)
      fix x
      assume "x \<in> set rows" and "balance_key x \<noteq> balance_key ?r"
      then have "x \<noteq> b" and "x \<in> set rows1"
        using kb kr s1 by auto
      then show "x \<in> set ?rows'"
        using set' by auto
    qed
    from a wf' r_in kr cl old keep show ?thesis
      by blast
  qed
qed

subsection \<open>The whole loop\<close>

text \<open>Whether the loop ends normally or not, a row it leaves is an old row or recomputed.\<close>

lemma accrue_loop_written:
  assumes "balances_wf rows"
    and "\<forall>x\<in>set rows. x \<in> R \<or> closing_recomputed x"
  shows "\<forall>x\<in>set (snd (accrue_loop now ps n rows)). x \<in> R \<or> closing_recomputed x"
  using assms
proof (induction ps arbitrary: rows n)
  case Nil
  then show ?case
    by simp
next
  case (Cons p ps)
  obtain e t where p: "p = (e, t)"
    by (cases p)
  from accrue_step [OF Cons.prems(1), of now e t]
  consider (ok) r rows' where "accrue now e t rows = Inr rows'" "balances_wf rows'"
      "r \<in> set rows'" "closing_recomputed r" "\<forall>x\<in>set rows'. x \<noteq> r \<longrightarrow> x \<in> set rows"
    | (raised) err rows1 where "accrue now e t rows = Inl (err, rows1)"
      "\<forall>x\<in>set rows1. x \<in> set rows \<or> closing_recomputed x"
    by blast
  then show ?case
  proof cases
    case ok
    have "\<forall>x\<in>set rows'. x \<in> R \<or> closing_recomputed x"
      using ok(4,5) Cons.prems(2) by metis
    from Cons.IH [OF ok(2) this, of "n + 1"] show ?thesis
      using ok(1) p by simp
  next
    case raised
    have "\<forall>x\<in>set rows1. x \<in> R \<or> closing_recomputed x"
      using raised(2) Cons.prems(2) by metis
    then show ?thesis
      using raised(1) p by simp
  qed
qed

text \<open>When the loop ends normally, every key it visited has a recomputed row.\<close>

lemma accrue_loop_correct:
  assumes "balances_wf rows"
    and "\<forall>x\<in>set rows. balance_key x \<in> K \<longrightarrow> closing_recomputed x"
    and "K \<subseteq> balance_key ` set rows"
    and "accrue_loop now ps n rows = (Inr m, rows')"
  shows "balances_wf rows'
       \<and> (\<forall>x\<in>set rows'.
             balance_key x \<in> K \<union> (\<lambda>(e, t). (pk e, pk t, year (date_of now))) ` set ps
             \<longrightarrow> closing_recomputed x)
       \<and> K \<union> (\<lambda>(e, t). (pk e, pk t, year (date_of now))) ` set ps
             \<subseteq> balance_key ` set rows'"
  using assms
proof (induction ps arbitrary: rows K n)
  case Nil
  then show ?case
    by simp
next
  case (Cons p ps)
  obtain e t where p: "p = (e, t)"
    by (cases p)
  let ?k = "(pk e, pk t, year (date_of now))"
  have "\<not> (\<exists>err rows1. accrue now e t rows = Inl (err, rows1))"
    using Cons.prems(4) p by auto
  with accrue_step [OF Cons.prems(1), of now e t]
  obtain r rows1 where a: "accrue now e t rows = Inr rows1"
    and wf1: "balances_wf rows1" and r: "r \<in> set rows1" "balance_key r = ?k"
      "closing_recomputed r"
    and old: "\<forall>x\<in>set rows1. x \<noteq> r \<longrightarrow> x \<in> set rows \<and> balance_key x \<noteq> balance_key r"
    and keep: "\<forall>x\<in>set rows. balance_key x \<noteq> balance_key r \<longrightarrow> x \<in> set rows1"
    by blast
  have 1: "\<forall>x\<in>set rows1. balance_key x \<in> insert ?k K \<longrightarrow> closing_recomputed x"
  proof
    fix x
    assume x: "x \<in> set rows1"
    show "balance_key x \<in> insert ?k K \<longrightarrow> closing_recomputed x"
    proof (cases "x = r")
      case True
      then show ?thesis
        using r(3) by simp
    next
      case False
      then have "x \<in> set rows" and "balance_key x \<noteq> ?k"
        using old x r(2) by auto
      then show ?thesis
        using Cons.prems(2) by auto
    qed
  qed
  have 2: "insert ?k K \<subseteq> balance_key ` set rows1"
  proof
    fix k
    assume "k \<in> insert ?k K"
    then consider "k = ?k" | "k \<noteq> ?k" "k \<in> K"
      by auto
    then show "k \<in> balance_key ` set rows1"
    proof cases
      case 1
      then show ?thesis
        using r(1,2) by (metis imageI)
    next
      case 2
      then obtain x where "x \<in> set rows" "balance_key x = k"
        using Cons.prems(3) by auto
      then have "x \<in> set rows1"
        using keep 2(1) r(2) by auto
      then show ?thesis
        using \<open>balance_key x = k\<close> by (metis imageI)
    qed
  qed
  have l: "accrue_loop now ps (n + 1) rows1 = (Inr m, rows')"
    using Cons.prems(4) a p by simp
  have "K \<union> (\<lambda>(e, t). (pk e, pk t, year (date_of now))) ` set (p # ps)
      = insert ?k K \<union> (\<lambda>(e, t). (pk e, pk t, year (date_of now))) ` set ps"
    using p by auto
  with Cons.IH [OF wf1 1 2 l] show ?case
    by simp
qed

lemma balance_row_found:
  assumes "(e, t, y) \<in> balance_key ` set rows"
    and "\<forall>x\<in>set rows. balance_key x = (e, t, y) \<longrightarrow> closing_recomputed x"
  shows "\<exists>b. balance_row e t y rows = Some b \<and> closing_recomputed b"
proof (cases "balance_row e t y rows")
  case None
  then show ?thesis
    using assms(1) by (auto simp: balance_row_def find_None_iff balance_key_def)
next
  case (Some b)
  then have "b \<in> set rows" and "balance_key b = (e, t, y)"
    by (auto simp: balance_row_def find_Some_iff balance_key_def)
  then show ?thesis
    using Some assms(2) by simp
qed


text \<open>
  C3, as the code has it. Both handlers that recompute the closing balance set it to
  opening + accrued + carried forward - taken. \<open>leave_application_approve\<close> stores such a
  row for the balance of the application it approves when the new day counts fit their
  columns; when they do not, the save raises and no balance is written. \<open>accrue_monthly\<close>
  runs on a table whose primary keys and (employee, leave type, year) keys are distinct.
  However it ends, a balance row it leaves is a row that was there before or has its
  closing balance so recomputed; and when it returns normally, every active employee
  has, for every active leave type and the current year, a balance row with the closing
  balance so recomputed.
\<close>

theorem closing_balance_recomputed:
  "(req_user request \<noteq> None \<and> by_pk i (leave_applications s) = Some app
      \<and> la_status app \<in> {Submitted, Pending_approval} \<and> balance_of app s = Some b \<longrightarrow>
      (let b3 = b\<lparr>lb_taken_days := lb_taken_days b + la_working_days app,
                  lb_pending_days := lb_pending_days b - la_working_days app,
                  lb_closing_balance :=
                    lb_opening_balance b + lb_accrued_days b + lb_carried_forward_days b
                    - (lb_taken_days b + la_working_days app)\<rparr>
       in closing_recomputed (b3\<lparr>updated_at := now\<rparr>)
          \<and> (balance_fits b3 \<longrightarrow>
                by_pk (pk b) (leave_balances (snd (leave_application_approve now i request s)))
                  = Some (b3\<lparr>updated_at := now\<rparr>))
          \<and> (\<not> balance_fits b3 \<longrightarrow>
                fst (leave_application_approve now i request s) = Decimal_error
                \<and> leave_balances (snd (leave_application_approve now i request s))
                    = leave_balances s)))
   \<and> (balances_wf (leave_balances s) \<longrightarrow>
        (\<forall>x\<in>set (leave_balances (snd (accrue_monthly now s))).
            x \<in> set (leave_balances s) \<or> closing_recomputed x)
        \<and> (\<forall>n. fst (accrue_monthly now s) = Inr n \<longrightarrow>
              (\<forall>e\<in>set (employees s). \<forall>t\<in>set (leave_types s).
                  employment_status e = Active \<and> lt_is_active t \<longrightarrow>
                  (\<exists>b'. balance_row (pk e) (pk t) (year (date_of now))
                           (leave_balances (snd (accrue_monthly now s))) = Some b'
                         \<and> closing_recomputed b'))))"
proof (intro conjI impI)
  assume v: "req_user request \<noteq> None \<and> by_pk i (leave_applications s) = Some app
      \<and> la_status app \<in> {Submitted, Pending_approval} \<and> balance_of app s = Some b"
  let ?b3 = "b\<lparr>lb_taken_days := lb_taken_days b + la_working_days app,
                  lb_pending_days := lb_pending_days b - la_working_days app,
                  lb_closing_balance :=
                    lb_opening_balance b + lb_accrued_days b + lb_carried_forward_days b
                    - (lb_taken_days b + la_working_days app)\<rparr>"
  from v have f: "leave_application_approve now i request s =
     (let app' = app\<lparr>la_status := Approved, la_approved_date := Some now, updated_at := now\<rparr>;
          s1 = s\<lparr>leave_applications := write_row app' (leave_applications s)\<rparr>;
          done = Redirect ''leave_application_list''
                   (Message_success ''Leave application approved!'')
      in case balance_of app s of
           None \<Rightarrow> (done, s1)
         | Some b \<Rightarrow>
             (let b3 = b\<lparr>lb_taken_days := lb_taken_days b + la_working_days app,
                         lb_pending_days := lb_pending_days b - la_working_days app,
                         lb_closing_balance :=
                           lb_opening_balance b + lb_accrued_days b + lb_carried_forward_days b
                           - (lb_taken_days b + la_working_days app)\<rparr>
              in if balance_fits b3
                 then (done, s1\<lparr>leave_balances := save now b3 (leave_balances s)\<rparr>)
                 else (Decimal_error, s1)))"
    by (intro view_approve_found) simp_all
  have 1: "closing_recomputed (?b3\<lparr>updated_at := now\<rparr>)"
    by (simp add: closing_recomputed_def)
  have 2: "by_pk (pk b) (leave_balances (snd (leave_application_approve now i request s)))
             = Some (?b3\<lparr>updated_at := now\<rparr>)" if "balance_fits ?b3"
    using v that by (simp add: f Let_def by_pk_save_same pre_save_def)
  have 3: "fst (leave_application_approve now i request s) = Decimal_error
           \<and> leave_balances (snd (leave_application_approve now i request s))
               = leave_balances s" if "\<not> balance_fits ?b3"
    using v that by (simp add: f Let_def)
  from 1 2 3 show "let b3 = ?b3
       in closing_recomputed (b3\<lparr>updated_at := now\<rparr>)
          \<and> (balance_fits b3 \<longrightarrow>
                by_pk (pk b) (leave_balances (snd (leave_application_approve now i request s)))
                  = Some (b3\<lparr>updated_at := now\<rparr>))
          \<and> (\<not> balance_fits b3 \<longrightarrow>
                fst (leave_application_approve now i request s) = Decimal_error
                \<and> leave_balances (snd (leave_application_approve now i request s))
                    = leave_balances s)"
    unfolding Let_def by blast
next
  assume wf: "balances_wf (leave_balances s)"
  let ?es = "filter (\<lambda>e. employment_status e = Active) (employees s)"
  let ?ts = "filter lt_is_active (leave_types s)"
  have rows: "leave_balances (snd (accrue_monthly now s))
      = snd (accrue_loop now (List.product ?es ?ts) 0 (leave_balances s))"
    by (simp add: accrue_monthly_def Let_def split: prod.splits sum.splits)
  have "\<forall>x\<in>set (leave_balances s). x \<in> set (leave_balances s) \<or> closing_recomputed x"
    by simp
  from accrue_loop_written [OF wf this]
  show "\<forall>x\<in>set (leave_balances (snd (accrue_monthly now s))).
          x \<in> set (leave_balances s) \<or> closing_recomputed x"
    by (simp add: rows)
next
  assume wf: "balances_wf (leave_balances s)"
  let ?es = "filter (\<lambda>e. employment_status e = Active) (employees s)"
  let ?ts = "filter lt_is_active (leave_types s)"
  let ?key = "\<lambda>(e, t). (pk e, pk t, year (date_of now))"
  show "\<forall>n. fst (accrue_monthly now s) = Inr n \<longrightarrow>
          (\<forall>e\<in>set (employees s). \<forall>t\<in>set (leave_types s).
              employment_status e = Active \<and> lt_is_active t \<longrightarrow>
              (\<exists>b'. balance_row (pk e) (pk t) (year (date_of now))
                       (leave_balances (snd (accrue_monthly now s))) = Some b'
                     \<and> closing_recomputed b'))"
  proof (intro allI impI ballI)
    fix n e t
    assume ok: "fst (accrue_monthly now s) = Inr n"
      and e: "e \<in> set (employees s)" and t: "t \<in> set (leave_types s)"
      and active: "employment_status e = Active \<and> lt_is_active t"
    obtain res rows' where l: "accrue_loop now (List.product ?es ?ts) 0 (leave_balances s)
        = (res, rows')"
      by (cases "accrue_loop now (List.product ?es ?ts) 0 (leave_balances s)")
    obtain m where m: "res = Inr m"
      using ok l by (cases res) (simp_all add: accrue_monthly_def Let_def)
    have rows: "leave_balances (snd (accrue_monthly now s)) = rows'"
      using l m by (simp add: accrue_monthly_def Let_def)
    from accrue_loop_correct [OF wf, of "{}" now "List.product ?es ?ts" 0 m rows'] l m
    have c: "\<forall>x\<in>set rows'. balance_key x \<in> ?key ` set (List.product ?es ?ts)
              \<longrightarrow> closing_recomputed x"
      and k: "?key ` set (List.product ?es ?ts) \<subseteq> balance_key ` set rows'"
      by auto
    have "(e, t) \<in> set (List.product ?es ?ts)"
      using e t active by simp
    then have in_keys: "(pk e, pk t, year (date_of now)) \<in> ?key ` set (List.product ?es ?ts)"
      by (metis (no_types, lifting) imageI case_prod_conv)
    then have 1: "(pk e, pk t, year (date_of now)) \<in> balance_key ` set rows'"
      using k by blast
    have 2: "\<forall>x\<in>set rows'. balance_key x = (pk e, pk t, year (date_of now))
               \<longrightarrow> closing_recomputed x"
      using c in_keys by metis
    from balance_row_found [OF 1 2]
    show "\<exists>b'. balance_row (pk e) (pk t) (year (date_of now))
                 (leave_balances (snd (accrue_monthly now s))) = Some b'
               \<and> closing_recomputed b'"
      by (simp add: rows)
  qed
qed

theorem closing_balance_recomputed_witness:
  "req_user staff_post \<noteq> None
   \<and> by_pk 1 (leave_applications submitted_db) = Some submitted_application
   \<and> la_status submitted_application \<in> {Submitted, Pending_approval}
   \<and> balance_of submitted_application submitted_db
       = Some (sample_balance\<lparr>lb_pending_days := 300\<rparr>)
   \<and> balance_fits (sample_balance\<lparr>lb_taken_days := 300, lb_pending_days := 0,
        lb_closing_balance := 700\<rparr>)
   \<and> by_pk 7 (leave_balances (snd (leave_application_approve t1 1 staff_post submitted_db)))
       = Some (sample_balance\<lparr>lb_taken_days := 300, lb_pending_days := 0,
                 lb_closing_balance := 700, updated_at := t1\<rparr>)
   \<and> balances_wf (leave_balances sample_db)
   \<and> fst (accrue_monthly t1 sample_db) = Inr (1, 1, 1)
   \<and> sample_employee \<in> set (employees sample_db)
   \<and> sample_leave_type \<in> set (leave_types sample_db)
   \<and> employment_status sample_employee = Active \<and> lt_is_active sample_leave_type
   \<and> (\<exists>b'. balance_row 4 2 2024 (leave_balances (snd (accrue_monthly t1 sample_db))) = Some b'
            \<and> closing_recomputed b')"
proof -
  have h1: "req_user staff_post \<noteq> None"
    by (simp add: staff_post_def)
  have h2: "by_pk 1 (leave_applications submitted_db) = Some submitted_application"
    by (simp add: by_pk_def submitted_db_def submitted_application_def sample_application_def)
  have h3: "la_status submitted_application \<in> {Submitted, Pending_approval}"
    by (simp add: submitted_application_def)
  have h4: "balance_of submitted_application submitted_db
             = Some (sample_balance\<lparr>lb_pending_days := 300\<rparr>)"
    by (simp add: balance_of_def balance_row_def submitted_db_def submitted_application_def
          sample_application_def sample_balance_def)
  have h5: "balances_wf (leave_balances sample_db)"
    by (simp add: balances_wf_def sample_db_def)
  have h6: "sample_employee \<in> set (employees sample_db)"
    "sample_leave_type \<in> set (leave_types sample_db)"
    "employment_status sample_employee = Active \<and> lt_is_active sample_leave_type"
    by (simp_all add: sample_db_def sample_employee_def sample_leave_type_def)
  have h7: "fst (accrue_monthly t1 sample_db) = Inr (1, 1, 1)"
    by (simp add: accrue_monthly_def accrue_def get_or_create_def save_balance_def
          balance_fits_def fits_def sample_defs Let_def)
  have h8: "balance_fits (sample_balance\<lparr>lb_taken_days := 300, lb_pending_days := 0,
        lb_closing_balance := 700\<rparr>)"
    by (simp add: balance_fits_def fits_def sample_balance_def)
  have v: "pk sample_employee = 4" "pk sample_leave_type = 2" "year (date_of t1) = 2024"
    "pk (sample_balance\<lparr>lb_pending_days := 300\<rparr>) = 7"
    "la_working_days submitted_application = 300"
    "lb_opening_balance sample_balance = 0" "lb_accrued_days sample_balance = 1000"
    "lb_carried_forward_days sample_balance = 0" "lb_taken_days sample_balance = 0"
    by (simp_all add: sample_employee_def sample_leave_type_def t1_def sample_balance_def
          submitted_application_def sample_application_def)
  note a = closing_balance_recomputed [of staff_post 1 submitted_db submitted_application
      "sample_balance\<lparr>lb_pending_days := 300\<rparr>" t1]
  note b = closing_balance_recomputed [of staff_post 1 sample_db submitted_application
      "sample_balance\<lparr>lb_pending_days := 300\<rparr>" t1]
  have "by_pk 7 (leave_balances (snd (leave_application_approve t1 1 staff_post submitted_db)))
       = Some (sample_balance\<lparr>lb_taken_days := 300, lb_pending_days := 0,
                 lb_closing_balance := 700, updated_at := t1\<rparr>)"
    using a h1 h2 h3 h4 h8 v by (simp add: Let_def)
  moreover have "\<exists>b'. balance_row 4 2 2024 (leave_balances (snd (accrue_monthly t1 sample_db)))
            = Some b' \<and> closing_recomputed b'"
    using b h5 h6 h7 v by (metis (no_types, lifting))
  ultimately show ?thesis
    using h1 h2 h3 h4 h5 h6 h7 h8 by simp
qed


end
